theory Spec2Isabelle
  imports Complex_Main
begin

section \<open>geoutils.georaster: the Raster class\<close>

text \<open>
  A shallow embedding of \<^verbatim>\<open>geoutils/georaster.py\<close>. Python numbers are reals; where
  \<^verbatim>\<open>reproject\<close> and \<^verbatim>\<open>from_bounds\<close> lay out a grid, each arithmetic operation on floats is
  rounded to double precision (\<open>fl\<close> below), elsewhere rounding is not modelled. A raised
  exception is the \<open>Inl\<close> branch of a sum, and the object \<^verbatim>\<open>self\<close> is a record that a
  mutating method returns updated. The state an object is left in when a method raises is
  not modelled.
\<close>

subsection \<open>Exceptions\<close>

datatype error =
    ValueError string
  | TypeError string
  | AttributeError string
  | AssertionError string
  | IndexError string
  | UnboundLocalError string
  | ZeroDivisionError
  | OverflowError string
  | NotImplementedError
  | LibraryError string

subsection \<open>Double precision\<close>

text \<open>
  Rounding of a real number to the nearest double, ties to even: the number is scaled by the
  power of two that gives it a 53-bit significand, or by \<open>2 ^ 1074\<close> when it lies below
  the normal range, rounded to an integer and scaled back. A float operation of the source
  is the exact operation followed by \<open>fl\<close>; when the rounded value reaches
  \<open>2 ^ 1024\<close> the operation overflows and returns an infinity. Infinities and nan are
  not values of the model: where the source goes on with one, the model says what comes of
  it. The arguments of the methods are finite doubles.
\<close>

definition round_half_even :: "real \<Rightarrow> int" where
  "round_half_even x = (let f = \<lfloor>x\<rfloor> in
     if x - real_of_int f < 1 / 2 then f
     else if x - real_of_int f > 1 / 2 then f + 1
     else if even f then f else f + 1)"

definition fl :: "real \<Rightarrow> real" where
  "fl x = (if x = 0 then 0
           else (let e = max \<lfloor>log 2 \<bar>x\<bar>\<rfloor> (- 1022) - 52
                 in real_of_int (round_half_even (x / 2 powr real_of_int e)) * 2 powr real_of_int e))"

definition overflows :: "real \<Rightarrow> bool" where
  "overflows x = (2 ^ 1024 \<le> \<bar>fl x\<bar>)"

text \<open>A finite double: a float operation with this exact result returns it as it is.\<close>

definition representable :: "real \<Rightarrow> bool" where
  "representable x = (fl x = x \<and> \<bar>x\<bar> < 2 ^ 1024)"

subsection \<open>Values of the libraries: arrays, transforms, datasets\<close>

datatype dtype = UInt8 | Int8 | UInt16 | Int16 | UInt32 | Int32 | Float32 | Float64

datatype crs = EPSG int | WKT string

text \<open>An affine transform \<^verbatim>\<open>Affine(a, b, c, d, e, f)\<close>: x = a*col + b*row + c, y = d*col + e*row + f.\<close>

type_synonym affine = "real \<times> real \<times> real \<times> real \<times> real \<times> real"

text \<open>\<^verbatim>\<open>rasterio.coords.BoundingBox(left, bottom, right, top)\<close>.\<close>

record bounding_box =
  bb_left :: real
  bb_bottom :: real
  bb_right :: real
  bb_top :: real

text \<open>
  A numpy array of shape (bands, rows, cols). \<open>arr_mask\<close> is \<open>Some m\<close> for a
  \<^verbatim>\<open>np.ma.MaskedArray\<close> (\<open>True\<close> marks a masked entry) and \<open>None\<close> for a plain
  \<^verbatim>\<open>np.ndarray\<close>; \<open>arr_data\<close> is the underlying \<^verbatim>\<open>.data\<close>.
\<close>

record ndarray =
  arr_dtype :: dtype
  arr_data :: "real list list list"
  arr_mask :: "bool list list list option"

definition shape0 :: "ndarray \<Rightarrow> nat" where
  "shape0 a = length (arr_data a)"

definition shape1 :: "ndarray \<Rightarrow> nat" where
  "shape1 a = (case arr_data a of [] \<Rightarrow> 0 | b # _ \<Rightarrow> length b)"

definition shape2 :: "ndarray \<Rightarrow> nat" where
  "shape2 a = (case arr_data a of [] \<Rightarrow> 0 | b # _ \<Rightarrow> (case b of [] \<Rightarrow> 0 | row # _ \<Rightarrow> length row))"

text \<open>What may sit under the key \<^verbatim>\<open>'nodata'\<close> of a metadata dict.\<close>

datatype ndv = NdvNone | NdvNum real | NdvSeq "real list"

text \<open>The dict \<^verbatim>\<open>ds.meta\<close>: driver, dtype, nodata, width, height, count, crs, transform.\<close>

record meta =
  m_driver :: string
  m_dtype :: dtype
  m_nodata :: ndv
  m_width :: nat
  m_height :: nat
  m_count :: nat
  m_crs :: crs
  m_transform :: affine

text \<open>
  An open rasterio dataset (read mode): its profile and its pixels, bands of rows.
  Only what the methods below read is kept.
\<close>

record dataset =
  ds_name :: string
  ds_driver :: string
  ds_dtype :: dtype
  ds_nodata :: "real option"
  ds_width :: nat
  ds_height :: nat
  ds_count :: nat
  ds_crs :: crs
  ds_transform :: affine
  ds_pixels :: "real list list list"

definition ds_meta :: "dataset \<Rightarrow> meta" where
  "ds_meta d = \<lparr>m_driver = ds_driver d, m_dtype = ds_dtype d,
     m_nodata = (case ds_nodata d of None \<Rightarrow> NdvNone | Some v \<Rightarrow> NdvNum v),
     m_width = ds_width d, m_height = ds_height d, m_count = ds_count d,
     m_crs = ds_crs d, m_transform = ds_transform d\<rparr>"

text \<open>
  \<^verbatim>\<open>ds.bounds\<close> as rasterio derives it from the transform and the size: for a transform
  without rotation (c, f + e*height, c + a*width, f), otherwise the box around the four
  corners of the image.
\<close>

definition ds_bounds :: "dataset \<Rightarrow> bounding_box" where
  "ds_bounds d = (case ds_transform d of (a, b, c, d', e, f) \<Rightarrow>
     (let w = real (ds_width d); h = real (ds_height d) in
      if b = 0 \<and> d' = 0 then
        \<lparr>bb_left = c, bb_bottom = f + e * h, bb_right = c + a * w, bb_top = f\<rparr>
      else
        (let xs = [c, c + b * h, c + a * w + b * h, c + a * w];
             ys = [f, f + e * h, f + d' * w + e * h, f + d' * w]
         in \<lparr>bb_left = Min (set xs), bb_bottom = Min (set ys),
              bb_right = Max (set xs), bb_top = Max (set ys)\<rparr>)))"

definition ds_dtypes :: "dataset \<Rightarrow> dtype list" where
  "ds_dtypes d = replicate (ds_count d) (ds_dtype d)"

definition ds_indexes :: "dataset \<Rightarrow> nat list" where
  "ds_indexes d = [1 ..< Suc (ds_count d)]"

text \<open>
  \<^verbatim>\<open>ds.read(masked=m)\<close> of all bands. With \<^verbatim>\<open>masked=True\<close> the entries equal to the
  dataset's nodata value are masked.
\<close>

definition nodata_mask :: "real option \<Rightarrow> real list list list \<Rightarrow> bool list list list" where
  "nodata_mask nd px = map (map (map (\<lambda>v. nd = Some v))) px"

definition ds_read :: "dataset \<Rightarrow> bool \<Rightarrow> ndarray" where
  "ds_read d m = \<lparr>arr_dtype = ds_dtype d, arr_data = ds_pixels d,
     arr_mask = (if m then Some (nodata_mask (ds_nodata d) (ds_pixels d)) else None)\<rparr>"

text \<open>An in-memory file: \<open>None\<close> while nothing readable has been written to it.\<close>

datatype memoryfile = MemoryFile "dataset option"

definition memfile_open :: "memoryfile \<Rightarrow> error + dataset" where
  "memfile_open mf = (case mf of
       MemoryFile None \<Rightarrow> Inl (LibraryError ''RasterioIOError'')
     | MemoryFile (Some d) \<Rightarrow> Inr d)"

datatype resampling = Nearest | Bilinear | Cubic | CubicSpline | Lanczos | Average | Mode

text \<open>A resolution argument: one number, or the pair (xres, yres).\<close>

datatype res_arg = ResNum real | ResTuple real real

text \<open>
  The destination transform of a warp: not given, given, or given with an infinite or nan
  entry (a division by a zero size on numpy floats, or an overflow), which the model does
  not spell out.
\<close>

datatype grid_transform = Unset | Given affine | NonFinite

text \<open>The keyword arguments handed to \<^verbatim>\<open>rasterio.warp.reproject\<close>.\<close>

record warp_kwargs =
  src_transform :: affine
  src_crs :: crs
  dst_crs_kw :: crs
  resampling_kw :: resampling
  dst_nodata :: "real option"
  dst_resolution :: "res_arg option"
  dst_transform_kw :: grid_transform
  destination :: "ndarray option"

datatype crs_input = CrsEPSG int | CrsString string | CrsObject crs

text \<open>The arguments of \<^verbatim>\<open>rio.open(filename, 'w', ...)\<close> in \<^verbatim>\<open>save\<close>.\<close>

record profile =
  p_driver :: string
  p_height :: nat
  p_width :: nat
  p_count :: nat
  p_dtype :: dtype
  p_crs :: crs
  p_transform :: affine
  p_nodata :: "real option"
  p_co_opts :: "(string \<times> string) list"

text \<open>What \<^verbatim>\<open>save\<close> does to the destination, call by call, and the warning it may emit.\<close>

datatype effect =
    OpenForWriting string profile
  | Write ndarray
  | UpdateTags "(string \<times> string) list"
  | Warn string
  | SetGcps "real list list" "crs option"

text \<open>
  The calls into rasterio, numpy and the operating system whose results this module only
  passes on. They are parameters of the model: every theorem below holds for any behaviour
  of these functions. \<open>rio_warp_nonfinite\<close> is the warp called with a destination
  transform that has an infinite or nan entry.
\<close>

record lib =
  rio_open :: "bool \<Rightarrow> string \<Rightarrow> error + dataset"
  rio_create :: "meta \<Rightarrow> ndarray option \<Rightarrow> error + memoryfile"
  rio_mask :: "dataset \<Rightarrow> (real \<times> real) list \<Rightarrow> error + ndarray \<times> affine"
  rio_warp :: "ndarray option \<Rightarrow> warp_kwargs \<Rightarrow> error + ndarray \<times> affine"
  rio_warp_nonfinite :: "ndarray option \<Rightarrow> warp_kwargs \<Rightarrow> error + ndarray \<times> affine"
  windows_from_bounds :: "real \<Rightarrow> real \<Rightarrow> real \<Rightarrow> real \<Rightarrow> affine \<Rightarrow> error + real \<times> real"
  crs_from_user_input :: "crs_input \<Rightarrow> error + crs"
  crs_from_epsg :: "int \<Rightarrow> error + crs"
  ds_index :: "dataset \<Rightarrow> real \<Rightarrow> real \<Rightarrow> error + int \<times> int"
  ds_xy :: "dataset \<Rightarrow> int \<Rightarrow> int \<Rightarrow> string \<Rightarrow> error + real \<times> real"
  np_astype :: "dtype \<Rightarrow> ndarray \<Rightarrow> ndarray"
  os_abspath :: "string \<Rightarrow> string"
  os_exists :: "string \<Rightarrow> bool"
  ds_hasattr :: "string \<Rightarrow> bool"
  memfile_grid :: "memoryfile \<Rightarrow> error + crs \<times> nat \<times> nat \<times> bounding_box"
  rio_read_window ::
    "dataset \<Rightarrow> int \<times> int \<times> int \<times> int \<Rightarrow> real option \<Rightarrow> bool \<Rightarrow> int option \<Rightarrow> bool \<Rightarrow> error + ndarray"
  rio_effect :: "effect \<Rightarrow> error option"
  gcp_check :: "real list \<Rightarrow> error option"

subsection \<open>The Raster object\<close>

definition default_attrs :: "string list" where
  "default_attrs = [''bounds'', ''count'', ''crs'', ''dataset_mask'', ''driver'', ''dtypes'',
     ''height'', ''indexes'', ''name'', ''nodata'', ''res'', ''shape'', ''transform'', ''width'']"

text \<open>
  The fields \<open>bounds\<close> to \<open>width\<close> are the attributes \<^verbatim>\<open>_read_attrs\<close> copies from the
  dataset onto the object (\<^verbatim>\<open>res\<close> and \<^verbatim>\<open>dataset_mask\<close>, which no method below reads,
  are left out). \<open>data\<close> is \<^verbatim>\<open>_data\<close>, \<open>masked\<close> is \<^verbatim>\<open>_masked\<close>.
\<close>

record raster =
  filename :: "string option"
  matches_disk :: "bool option"
  ds :: dataset
  saved_attrs :: "string list"
  bounds :: bounding_box
  count :: nat
  crs :: crs
  driver :: string
  dtypes :: "dtype list"
  height :: nat
  indexes :: "nat list"
  name :: string
  nodata :: "real option"
  shape :: "nat \<times> nat"
  transform :: affine
  width :: nat
  masked :: bool
  data :: "ndarray option"
  nbands :: "nat option"
  isLoaded :: bool

subsection \<open>Construction\<close>

datatype filename_arg = FnStr string | FnMemoryFile memoryfile | FnArray ndarray | FnOther

datatype attrs_arg = AttrsNone | AttrsStr string | AttrsList "string list"

datatype bands_arg = BandsNone | BandsInt nat | BandsList "nat list"

text \<open>
  \<^verbatim>\<open>_read_attrs(attrs)\<close>: the default attributes are always copied from the dataset; a
  further name the dataset does not have makes \<^verbatim>\<open>getattr\<close> raise.
\<close>

definition read_attrs :: "lib \<Rightarrow> raster \<Rightarrow> attrs_arg \<Rightarrow> error + raster" where
  "read_attrs env self attrs =
     (let names = (case attrs of
                     AttrsNone \<Rightarrow> default_attrs
                   | AttrsStr s \<Rightarrow> [s] @ filter (\<lambda>a. a \<notin> set [s]) default_attrs
                   | AttrsList l \<Rightarrow> l @ filter (\<lambda>a. a \<notin> set l) default_attrs)
      in if list_ex (\<lambda>a. a \<notin> set default_attrs \<and> \<not> ds_hasattr env a) names
         then Inl (AttributeError ''DatasetReader object has no such attribute'')
         else Inr (self\<lparr>saved_attrs := names,
                bounds := ds_bounds (ds self), count := ds_count (ds self),
                crs := ds_crs (ds self), driver := ds_driver (ds self),
                dtypes := ds_dtypes (ds self), height := ds_height (ds self),
                indexes := ds_indexes (ds self), name := ds_name (ds self),
                nodata := ds_nodata (ds self),
                shape := (ds_height (ds self), ds_width (ds self)),
                transform := ds_transform (ds self), width := ds_width (ds self)\<rparr>))"

text \<open>\<^verbatim>\<open>load()\<close> as every method here calls it, without \<^verbatim>\<open>bands\<close>: all bands are read.\<close>

definition load :: "raster \<Rightarrow> raster" where
  "load self = (let a = ds_read (ds self) (masked self)
                in self\<lparr>data := Some a, nbands := Some (shape0 a)\<rparr>)"

text \<open>
  \<^verbatim>\<open>isinstance(filename, np.array)\<close>: \<^verbatim>\<open>np.array\<close> is a function, not a type, and
  Python's \<^verbatim>\<open>isinstance\<close> raises TypeError for such a second argument, whatever the first.
\<close>

definition isinstance_np_array :: "filename_arg \<Rightarrow> error + bool" where
  "isinstance_np_array fname = Inl (TypeError ''isinstance() arg 2 must be a type or tuple of types'')"

text \<open>The object before \<^verbatim>\<open>_read_attrs\<close> has run: only the handle and the file name are set.\<close>

definition fresh :: "string option \<Rightarrow> dataset \<Rightarrow> raster" where
  "fresh fn d = \<lparr>filename = fn, matches_disk = None, ds = d, saved_attrs = [],
     bounds = ds_bounds d, count = ds_count d, crs = ds_crs d, driver = ds_driver d,
     dtypes = ds_dtypes d, height = ds_height d, indexes = ds_indexes d, name = ds_name d,
     nodata = ds_nodata d, shape = (ds_height d, ds_width d), transform = ds_transform d,
     width = ds_width d, masked = True, data = None, nbands = None, isLoaded = False\<rparr>"

definition raster_init ::
  "lib \<Rightarrow> filename_arg \<Rightarrow> attrs_arg \<Rightarrow> bool \<Rightarrow> bands_arg \<Rightarrow> bool \<Rightarrow> bool \<Rightarrow> error + raster" where
  "raster_init env fname attrs load_data bands masked' as_memfile =
     (case (case fname of
              FnStr s \<Rightarrow>
                (case rio_open env as_memfile s of
                   Inl e \<Rightarrow> Inl e
                 | Inr d \<Rightarrow> Inr (Some (os_abspath env s), d))
            | FnMemoryFile mf \<Rightarrow>
                (case memfile_open mf of Inl e \<Rightarrow> Inl e | Inr d \<Rightarrow> Inr (None, d))
            | _ \<Rightarrow>
                (case isinstance_np_array fname of
                   Inl e \<Rightarrow> Inl e
                 | Inr True \<Rightarrow> Inl (ValueError
                     ''np.array provided as filename. Did you mean to call Raster.from_array(...) instead? '')
                 | Inr False \<Rightarrow> Inl (ValueError ''filename argument not recognised.''))) of
        Inl e \<Rightarrow> Inl e
      | Inr (fn, d) \<Rightarrow>
          (case read_attrs env (fresh fn d) attrs of
             Inl e \<Rightarrow> Inl e
           | Inr self \<Rightarrow>
               (let self = self\<lparr>masked := masked'\<rparr> in
                if load_data then
                  (let self = load self in
                   case data self of
                     None \<Rightarrow> Inl (AttributeError ''NoneType object has no attribute shape'')
                   | Some a \<Rightarrow>
                       Inr (self\<lparr>nbands := Some (shape0 a), isLoaded := True,
                              matches_disk := (case fname of FnStr s \<Rightarrow> Some True
                                               | _ \<Rightarrow> matches_disk self)\<rparr>))
                else Inr (self\<lparr>data := None, nbands := None, isLoaded := False\<rparr>))))"

datatype transform_arg = TAffine affine | TTuple "real list" | TOther

datatype crs_arg = CrsInt int | CrsGiven crs

definition affine_of_tuple :: "real list \<Rightarrow> error + affine" where
  "affine_of_tuple t = (case t of
       [a, b, c, d, e, f] \<Rightarrow> Inr (a, b, c, d, e, f)
     | _ \<Rightarrow> Inl (TypeError ''Affine() takes 6 coefficients''))"

text \<open>
  \<^verbatim>\<open>Raster.from_array(data, transform, crs, nodata)\<close>. A 2-D array is given here by its
  single-band form, what \<^verbatim>\<open>np.expand_dims(data, 0)\<close> makes of it.
\<close>

definition from_array ::
  "lib \<Rightarrow> ndarray \<Rightarrow> transform_arg \<Rightarrow> crs_arg \<Rightarrow> real option \<Rightarrow> error + raster" where
  "from_array env data' transform' crs' nodata' =
     (case (case transform' of
              TAffine t \<Rightarrow> Inr t
            | TTuple t \<Rightarrow> affine_of_tuple t
            | TOther \<Rightarrow> Inl (ValueError ''transform argument needs to be Affine or tuple.'')) of
        Inl e \<Rightarrow> Inl e
      | Inr t \<Rightarrow>
          (case (case crs' of CrsInt n \<Rightarrow> crs_from_epsg env n | CrsGiven c \<Rightarrow> Inr c) of
             Inl e \<Rightarrow> Inl e
           | Inr c \<Rightarrow>
               (case rio_create env
                       \<lparr>m_driver = ''GTiff'', m_dtype = arr_dtype data',
                        m_nodata = (case nodata' of None \<Rightarrow> NdvNone | Some v \<Rightarrow> NdvNum v),
                        m_width = shape2 data', m_height = shape1 data', m_count = shape0 data',
                        m_crs = c, m_transform = t\<rparr> (Some data') of
                  Inl e \<Rightarrow> Inl e
                | Inr mfh \<Rightarrow> raster_init env (FnMemoryFile mfh) AttrsNone True BandsNone True False)))"

subsection \<open>The update path\<close>

text \<open>\<^verbatim>\<open>_update(imgdata, metadata, vrt_to_driver)\<close>.\<close>

definition update :: "lib \<Rightarrow> raster \<Rightarrow> ndarray option \<Rightarrow> meta option \<Rightarrow> string \<Rightarrow> error + raster" where
  "update env self imgdata metadata vrt_to_driver =
     (let imgdata = (case imgdata of None \<Rightarrow> data self | Some a \<Rightarrow> Some a);
          metadata = (case metadata of None \<Rightarrow> ds_meta (ds self) | Some m \<Rightarrow> m);
          metadata = (if m_driver metadata = ''VRT'' then metadata\<lparr>m_driver := vrt_to_driver\<rparr>
                      else metadata)
      in case rio_create env metadata imgdata of
           Inl e \<Rightarrow> Inl e
         | Inr memfile \<Rightarrow>
             (case memfile_open memfile of
                Inl e \<Rightarrow> Inl e
              | Inr d \<Rightarrow>
                  (case read_attrs env (self\<lparr>ds := d\<rparr>) AttrsNone of
                     Inl e \<Rightarrow> Inl e
                   | Inr self \<Rightarrow>
                       (let self = self\<lparr>matches_disk := Some False\<rparr>
                        in if isLoaded self then Inr (load self) else Inr self))))"

subsection \<open>Cropping and shifting\<close>

text \<open>Python's \<^verbatim>\<open>int(x)\<close> on a float: truncation towards zero.\<close>

definition py_int :: "real \<Rightarrow> int" where
  "py_int x = (if 0 \<le> x then \<lfloor>x\<rfloor> else \<lceil>x\<rceil>)"

text \<open>
  \<^verbatim>\<open>rasterio.transform.from_bounds(west, south, east, north, width, height)\<close>: the
  translation to (west, north) scaled by ((east - west) / width, (south - north) / height),
  each difference and each quotient rounded. On Python floats a zero width or height
  raises ZeroDivisionError; on numpy floats (the first argument says which) the quotient is
  an infinity or a nan instead. A difference that overflows gives an infinite scale as well.
\<close>

definition from_bounds ::
  "bool \<Rightarrow> real \<Rightarrow> real \<Rightarrow> real \<Rightarrow> real \<Rightarrow> int \<Rightarrow> int \<Rightarrow> error + grid_transform" where
  "from_bounds numpy west south east north w h =
     (if (w = 0 \<or> h = 0) \<and> \<not> numpy then Inl ZeroDivisionError
      else if w = 0 \<or> h = 0 \<or> overflows (east - west) \<or> overflows (south - north)
      then Inr NonFinite
      else Inr (Given (fl (fl (east - west) / real_of_int w), 0, west, 0,
                       fl (fl (south - north) / real_of_int h), north)))"

text \<open>\<^verbatim>\<open>np.zeros(shape, dtype)\<close> and \<^verbatim>\<open>np.ones(shape)\<close>: an array filled with one value.\<close>

definition np_full :: "nat \<Rightarrow> int \<Rightarrow> int \<Rightarrow> dtype \<Rightarrow> real \<Rightarrow> error + ndarray" where
  "np_full n h w t v =
     (if h < 0 \<or> w < 0 then Inl (ValueError ''negative dimensions are not allowed'')
      else Inr \<lparr>arr_dtype = t, arr_data = replicate n (replicate (nat h) (replicate (nat w) v)),
                arr_mask = None\<rparr>)"

datatype crop_geom = GeomRaster raster | GeomVector | GeomList "real list" | GeomOther

definition crop :: "lib \<Rightarrow> raster \<Rightarrow> crop_geom \<Rightarrow> string \<Rightarrow> error + raster" where
  "crop env self cropGeom mode =
     (if mode \<notin> set [''match_extent'', ''match_pixel'']
      then Inl (AssertionError ''mode must be one of match_pixel, match_extent'')
      else
        case (case cropGeom of
                GeomRaster r \<Rightarrow> Inr (bb_left (bounds r), bb_bottom (bounds r),
                                     bb_right (bounds r), bb_top (bounds r))
              | GeomVector \<Rightarrow> Inl NotImplementedError
              | GeomList [xmin, ymin, xmax, ymax] \<Rightarrow> Inr (xmin, ymin, xmax, ymax)
              | GeomList _ \<Rightarrow> Inl (ValueError ''wrong number of values to unpack'')
              | GeomOther \<Rightarrow> Inl (ValueError
                  ''cropGeom must be a Raster, Vector, or list of coordinates.'')) of
          Inl e \<Rightarrow> Inl e
        | Inr (xmin, ymin, xmax, ymax) \<Rightarrow>
            (let meta = ds_meta (ds self) in
             if mode = ''match_pixel'' then
               (case rio_mask env (ds self) [(xmin, ymin), (xmax, ymin), (xmax, ymax), (xmin, ymax)] of
                  Inl e \<Rightarrow> Inl e
                | Inr (crop_img, tfm) \<Rightarrow>
                    update env self (Some crop_img)
                      (Some (meta\<lparr>m_height := shape1 crop_img, m_width := shape2 crop_img,
                                  m_transform := tfm\<rparr>)) ''GTiff'')
             else
               (case windows_from_bounds env xmin ymin xmax ymax (transform self) of
                  Inl e \<Rightarrow> Inl e
                | Inr (window_width, window_height) \<Rightarrow>
                    (let new_height = py_int window_height; new_width = py_int window_width in
                     case from_bounds False xmin ymin xmax ymax new_width new_height of
                       Inl e \<Rightarrow> Inl e
                     | Inr new_tfm \<Rightarrow>
                         (case data self of
                            None \<Rightarrow> Inl (AttributeError ''NoneType object has no attribute dtype'')
                          | Some a \<Rightarrow>
                              (case (if isLoaded self then nbands self else Some (count self)) of
                                 None \<Rightarrow> Inl (TypeError
                                   ''NoneType object cannot be interpreted as an integer'')
                               | Some n \<Rightarrow>
                                   (case np_full n new_height new_width (arr_dtype a) 0 of
                                      Inl e \<Rightarrow> Inl e
                                    | Inr new_img \<Rightarrow>
                                        (case (if new_tfm = NonFinite then rio_warp_nonfinite env
                                               else rio_warp env) (data self)
                                                \<lparr>src_transform = transform self, src_crs = crs self,
                                                 dst_crs_kw = crs self, resampling_kw = Nearest,
                                                 dst_nodata = None, dst_resolution = None,
                                                 dst_transform_kw = new_tfm,
                                                 destination = Some new_img\<rparr> of
                                           Inl e \<Rightarrow> Inl e
                                         | Inr (crop_img, tfm) \<Rightarrow>
                                             update env self (Some crop_img)
                                               (Some (meta\<lparr>m_height := nat new_height,
                                                           m_width := nat new_width,
                                                           m_transform := tfm\<rparr>)) ''GTiff''))))))))"

definition shift :: "lib \<Rightarrow> raster \<Rightarrow> real \<Rightarrow> real \<Rightarrow> error + raster" where
  "shift env self xoff yoff =
     (let meta = ds_meta (ds self) in
      case transform self of (dx, b, xmin, d, dy, ymax) \<Rightarrow>
        update env self None
          (Some (meta\<lparr>m_transform := (dx, b, xmin + xoff, d, dy, ymax + yoff)\<rparr>)) ''GTiff'')"

subsection \<open>Reprojection\<close>

datatype ref_arg =
  RefRaster raster | RefMemoryFile memoryfile | RefDataset dataset | RefStr string | RefOther

text \<open>
  The reference branch of \<^verbatim>\<open>reproject\<close>: the CRS, size and bounds read from
  \<^verbatim>\<open>dst_ref\<close>. What the attributes of a MemoryFile object give is left to the library.
\<close>

definition read_ref :: "lib \<Rightarrow> ref_arg \<Rightarrow> error + crs \<times> nat \<times> nat \<times> bounding_box" where
  "read_ref env dst_ref = (case dst_ref of
       RefRaster r \<Rightarrow> Inr (crs r, width r, height r, bounds r)
     | RefMemoryFile mf \<Rightarrow> memfile_grid env mf
     | RefDataset d \<Rightarrow> Inr (ds_crs d, ds_width d, ds_height d, ds_bounds d)
     | RefStr s \<Rightarrow>
         (if \<not> os_exists env s then Inl (AssertionError ''Reference raster does not exist'')
          else (case raster_init env (FnStr s) AttrsNone False BandsNone True False of
                  Inl e \<Rightarrow> Inl e
                | Inr r \<Rightarrow> Inr (crs r, width r, height r, bounds r)))
     | RefOther \<Rightarrow> Inl (ValueError
         ''Type of dst_ref not understood, must be path to file (str), Raster or rasterio data set''))"

text \<open>
  The argument checks of \<^verbatim>\<open>reproject\<close>, up to the test that \<^verbatim>\<open>dst_size\<close> and
  \<^verbatim>\<open>dst_res\<close> are not both set: the target CRS, size, bounds and resolution as they stand
  after them. With a reference, its size and bounds replace the arguments and the
  resolution is reset.
\<close>

definition reproject_args ::
  "lib \<Rightarrow> ref_arg option \<Rightarrow> crs_input option \<Rightarrow> (int \<times> int) option \<Rightarrow> bounding_box option \<Rightarrow>
   res_arg option \<Rightarrow> error + crs \<times> (int \<times> int) option \<times> bounding_box option \<times> res_arg option" where
  "reproject_args env dst_ref dst_crs dst_size dst_bounds dst_res =
     (case (case (dst_ref, dst_crs) of
              (Some r, Some c) \<Rightarrow>
                Inl (ValueError ''Either of `dst_ref` or `dst_crs` must be set. Not both.'')
            | (None, None) \<Rightarrow>
                Inl (ValueError ''One of `dst_ref` or `dst_crs` must be set.'')
            | (Some r, None) \<Rightarrow>
                (case read_ref env r of
                   Inl e \<Rightarrow> Inl e
                 | Inr (c, w, h, b) \<Rightarrow> Inr (c, Some (int w, int h), Some b, None))
            | (None, Some c) \<Rightarrow>
                (case crs_from_user_input env c of
                   Inl e \<Rightarrow> Inl e
                 | Inr c' \<Rightarrow> Inr (c', dst_size, dst_bounds, dst_res))) of
        Inl e \<Rightarrow> Inl e
      | Inr (c, size', bounds', res') \<Rightarrow>
          (if size' \<noteq> None \<and> res' \<noteq> None
           then Inl (ValueError ''dst_size and dst_res both specified. Specify only one.'')
           else Inr (c, size', bounds', res')))"

text \<open>
  The bounds of the target grid as \<^verbatim>\<open>reproject\<close> holds them: none, the BoundingBox it
  was given (Python floats), or the one adjusted to a resolution, whose right and bottom
  are numpy floats and may be infinite.
\<close>

datatype grid_bounds = NoBounds | PyBounds bounding_box | NpBounds bounding_box | NpNonFinite

text \<open>
  The size and bounds of the target grid when a resolution is given (the block under
  \<^verbatim>\<open>if dst_res is not None\<close>), in double precision. The first quotient divides Python
  floats, so a zero \<^verbatim>\<open>xres\<close> raises ZeroDivisionError; the second divides the numpy float
  that \<^verbatim>\<open>np.abs\<close> returns, so a zero \<^verbatim>\<open>yres\<close> gives an infinity or a nan. \<^verbatim>\<open>int\<close>
  refuses an infinity with OverflowError and a nan with ValueError, the width first. The
  products and sums of the adjusted bounds are numpy operations, which overflow silently.
\<close>

definition grid_from_res ::
  "(int \<times> int) option \<Rightarrow> bounding_box option \<Rightarrow> res_arg option \<Rightarrow>
   error + (int \<times> int) option \<times> grid_bounds \<times> res_arg option" where
  "grid_from_res dst_size dst_bounds dst_res =
     (case dst_res of
        None \<Rightarrow> Inr (dst_size, (case dst_bounds of None \<Rightarrow> NoBounds | Some b \<Rightarrow> PyBounds b), None)
      | Some res \<Rightarrow>
          (case dst_bounds of
             None \<Rightarrow> Inr (dst_size, NoBounds, Some res)
           | Some b \<Rightarrow>
               (let xres = (case res of ResNum v \<Rightarrow> v | ResTuple vx vy \<Rightarrow> vx);
                    yres = (case res of ResNum v \<Rightarrow> v | ResTuple vx vy \<Rightarrow> vy);
                    dx = bb_right b - bb_left b;
                    dy = bb_bottom b - bb_top b
                in if xres = 0 then Inl ZeroDivisionError
                   else if overflows dx \<or> overflows (fl dx / xres)
                   then Inl (OverflowError ''cannot convert float infinity to integer'')
                   else if yres = 0 \<and> fl dy = 0
                   then Inl (ValueError ''cannot convert float NaN to integer'')
                   else if yres = 0 \<or> overflows dy \<or> overflows (\<bar>fl dy\<bar> / yres)
                   then Inl (OverflowError ''cannot convert float infinity to integer'')
                   else
                     (let dst_width = \<lceil>fl (fl dx / xres)\<rceil>;
                          dst_height = \<lceil>fl (\<bar>fl dy\<bar> / yres)\<rceil>;
                          px = xres * real_of_int dst_width;
                          py = yres * real_of_int dst_height;
                          x1 = fl (bb_left b + fl px);
                          y1 = fl (bb_top b - fl py)
                      in Inr (Some (dst_width, dst_height),
                              (if overflows px \<or> overflows (bb_left b + fl px)
                                  \<or> overflows py \<or> overflows (bb_top b - fl py)
                               then NpNonFinite
                               else NpBounds \<lparr>bb_left = bb_left b, bb_bottom = y1, bb_right = x1,
                                              bb_top = bb_top b\<rparr>), None)))))"

text \<open>
  The keyword arguments assembled for the warp, with the destination transform computed on
  the way, and then the array of ones that receives the result.
\<close>

definition reproject_kwargs ::
  "raster \<Rightarrow> crs \<Rightarrow> (int \<times> int) option \<Rightarrow> bounding_box option \<Rightarrow> res_arg option \<Rightarrow>
   dtype option \<Rightarrow> resampling \<Rightarrow> error + warp_kwargs \<times> grid_transform" where
  "reproject_kwargs self dst_crs dst_size dst_bounds dst_res dtype' resampling' =
     (case (case dtype' of
              Some t \<Rightarrow> Inr t
            | None \<Rightarrow> (case dtypes self of
                         [] \<Rightarrow> Inl (IndexError ''tuple index out of range'')
                       | t # _ \<Rightarrow> Inr t)) of
        Inl e \<Rightarrow> Inl e
      | Inr _ \<Rightarrow>
          (let kw = \<lparr>src_transform = transform self, src_crs = crs self, dst_crs_kw = dst_crs,
                     resampling_kw = resampling', dst_nodata = nodata self,
                     dst_resolution = None, dst_transform_kw = Unset, destination = None\<rparr>
           in case grid_from_res dst_size dst_bounds dst_res of
                Inl e \<Rightarrow> Inl e
              | Inr (size', bounds', res_kw) \<Rightarrow>
                  (let kw = kw\<lparr>dst_resolution := res_kw\<rparr> in
                   case size' of
                     None \<Rightarrow> Inr (kw, Unset)
                   | Some (nx, ny) \<Rightarrow>
                       (case (case bounds' of
                                NoBounds \<Rightarrow> Inr Unset
                              | PyBounds b \<Rightarrow>
                                  from_bounds False (bb_left b) (bb_bottom b) (bb_right b)
                                    (bb_top b) nx ny
                              | NpBounds b \<Rightarrow>
                                  from_bounds True (bb_left b) (bb_bottom b) (bb_right b)
                                    (bb_top b) nx ny
                              | NpNonFinite \<Rightarrow> Inr NonFinite) of
                          Inl e \<Rightarrow> Inl e
                        | Inr dst_transform \<Rightarrow>
                            (case np_full (count self) ny nx Float64 1 of
                               Inl e \<Rightarrow> Inl e
                             | Inr dst_data \<Rightarrow>
                                 Inr (kw\<lparr>dst_transform_kw := dst_transform,
                                         destination := Some dst_data\<rparr>, dst_transform))))))"

text \<open>
  \<^verbatim>\<open>reproject\<close>: the receiver is only read; the result is a new Raster made by
  \<^verbatim>\<open>from_array\<close>. The extra \<^verbatim>\<open>**kwargs\<close> of the source are accepted and never used. For
  a transform with an infinite or nan entry, the warp and the comparison of the transforms
  after it are the library's: an exception, or the data and the transform handed on.
\<close>

definition reproject ::
  "lib \<Rightarrow> raster \<Rightarrow> ref_arg option \<Rightarrow> crs_input option \<Rightarrow> (int \<times> int) option \<Rightarrow>
   bounding_box option \<Rightarrow> res_arg option \<Rightarrow> real option \<Rightarrow> dtype option \<Rightarrow> resampling \<Rightarrow>
   error + raster" where
  "reproject env self dst_ref dst_crs dst_size dst_bounds dst_res nodata' dtype' resampling' =
     (case reproject_args env dst_ref dst_crs dst_size dst_bounds dst_res of
        Inl e \<Rightarrow> Inl e
      | Inr (c, size', bounds', res') \<Rightarrow>
          (case reproject_kwargs self c size' bounds' res' dtype' resampling' of
             Inl e \<Rightarrow> Inl e
           | Inr (kw, dst_transform) \<Rightarrow>
               (case dst_transform of
                  NonFinite \<Rightarrow>
                    (case rio_warp_nonfinite env (data self) kw of
                       Inl e \<Rightarrow> Inl e
                     | Inr (dst_data, dst_transformed) \<Rightarrow>
                         from_array env dst_data (TAffine dst_transformed) (CrsGiven c) nodata')
                | Unset \<Rightarrow>
                    (case rio_warp env (data self) kw of
                       Inl e \<Rightarrow> Inl e
                     | Inr (dst_data, dst_transformed) \<Rightarrow>
                         from_array env dst_data (TAffine dst_transformed) (CrsGiven c) nodata')
                | Given t \<Rightarrow>
                    (case rio_warp env (data self) kw of
                       Inl e \<Rightarrow> Inl e
                     | Inr (dst_data, dst_transformed) \<Rightarrow>
                         if t = dst_transformed
                         then from_array env dst_data (TAffine dst_transformed) (CrsGiven c) nodata'
                         else Inl (AssertionError ''dst_transform == dst_transformed'')))))"

subsection \<open>Nodata values and data types\<close>

datatype ndv_arg = NdvArgNum real | NdvArgSeq "real list" | NdvArgOther

text \<open>\<^verbatim>\<open>ndv[i]\<close>: a number cannot be subscripted, a list can within its length.\<close>

definition ndv_item :: "ndv \<Rightarrow> nat \<Rightarrow> error + real" where
  "ndv_item v i = (case v of
       NdvSeq vs \<Rightarrow> (if i < length vs then Inr (vs ! i)
                      else Inl (IndexError ''list index out of range''))
     | _ \<Rightarrow> Inl (TypeError ''object is not subscriptable''))"

text \<open>The value a boolean-indexed assignment writes: a number is written to every selected entry.\<close>

definition ndv_scalar :: "ndv \<Rightarrow> error + real" where
  "ndv_scalar v = (case v of
       NdvNum x \<Rightarrow> Inr x
     | NdvSeq vs \<Rightarrow> Inl (ValueError ''cannot assign the input values to the selected entries'')
     | NdvNone \<Rightarrow> Inl (TypeError ''cannot convert None to a number''))"

text \<open>\<^verbatim>\<open>band[sel] = v\<close> for one band and a boolean selection of the same shape.\<close>

definition assign_where :: "bool list list \<Rightarrow> real \<Rightarrow> real list list \<Rightarrow> real list list" where
  "assign_where sel v band = map2 (map2 (\<lambda>m x. if m then v else x)) sel band"

text \<open>
  The single-band branch: the masked entries of a masked array, or the entries equal to
  the previous nodata value of a plain one, are overwritten in place.
\<close>

definition fill_single :: "ndarray option \<Rightarrow> real \<Rightarrow> ndv \<Rightarrow> error + ndarray" where
  "fill_single imgdata pre_ndv v =
     (case imgdata of
        None \<Rightarrow> Inl (TypeError ''NoneType object is not subscriptable'')
      | Some a \<Rightarrow>
          (case ndv_scalar v of
             Inl e \<Rightarrow> Inl e
           | Inr x \<Rightarrow>
               (case arr_mask a of
                  Some m \<Rightarrow> Inr (a\<lparr>arr_data := map2 (\<lambda>sel band. assign_where sel x band) m (arr_data a)\<rparr>)
                | None \<Rightarrow> Inr (a\<lparr>arr_data := map (map (map (\<lambda>p. if p = pre_ndv then x else p)))
                                                  (arr_data a)\<rparr>))))"

text \<open>
  One round of the loop over the bands. On a plain array the source subscripts the previous
  nodata value, \<^verbatim>\<open>pre_ndv[i]\<close>, which is the dataset's single number.
\<close>

definition fill_band :: "nat \<Rightarrow> ndv \<Rightarrow> ndarray option \<Rightarrow> error + ndarray option" where
  "fill_band i v imgdata =
     (case imgdata of
        None \<Rightarrow> Inl (TypeError ''NoneType object is not subscriptable'')
      | Some a \<Rightarrow>
          (case arr_mask a of
             Some m \<Rightarrow>
               (case ndv_item v i of
                  Inl e \<Rightarrow> Inl e
                | Inr x \<Rightarrow>
                    if i < length m \<and> i < length (arr_data a)
                    then Inr (Some (a\<lparr>arr_data := (arr_data a)[i := assign_where (m ! i) x (arr_data a ! i)]\<rparr>))
                    else Inl (IndexError ''index is out of bounds for axis 0''))
           | None \<Rightarrow>
               (if i < length (arr_data a) then Inl (TypeError ''float object is not subscriptable'')
                else Inl (IndexError ''index is out of bounds for axis 0''))))"

fun fill_bands :: "nat list \<Rightarrow> ndv \<Rightarrow> ndarray option \<Rightarrow> error + ndarray option" where
  "fill_bands [] v imgdata = Inr imgdata"
| "fill_bands (i # rest) v imgdata =
     (case fill_band i v imgdata of Inl e \<Rightarrow> Inl e | Inr imgdata' \<Rightarrow> fill_bands rest v imgdata')"

text \<open>
  \<^verbatim>\<open>set_ndv\<close> from the line \<^verbatim>\<open>meta = self.ds.meta\<close> on, for the nodata value the
  branches above it have settled. The array is changed in place, so the object's own data
  is the changed array when \<^verbatim>\<open>_update\<close> runs.
\<close>

definition set_ndv_apply :: "lib \<Rightarrow> raster \<Rightarrow> ndv \<Rightarrow> bool \<Rightarrow> error + raster" where
  "set_ndv_apply env self v update_array =
     (let meta = (ds_meta (ds self))\<lparr>m_nodata := v\<rparr> in
      case nodata self of
        Some pre_ndv \<Rightarrow>
          (if update_array then
             (case (if count self = 1
                    then (case fill_single (data self) pre_ndv v of
                            Inl e \<Rightarrow> Inl e | Inr a \<Rightarrow> Inr (Some a))
                    else fill_bands [0 ..< count self] v (data self)) of
                Inl e \<Rightarrow> Inl e
              | Inr imgdata \<Rightarrow> update env (self\<lparr>data := imgdata\<rparr>) imgdata (Some meta) ''GTiff'')
           else update env self None (Some meta) ''GTiff'')
      | None \<Rightarrow> update env self None (Some meta) ''GTiff'')"

text \<open>
  \<^verbatim>\<open>set_ndv(ndv, update_array)\<close>. The first component of the result is what was printed.
\<close>

definition set_ndv :: "lib \<Rightarrow> raster \<Rightarrow> ndv_arg \<Rightarrow> bool \<Rightarrow> string list \<times> (error + raster)" where
  "set_ndv env self ndv' update_array =
     (case ndv' of
        NdvArgOther \<Rightarrow>
          ([], Inl (ValueError ''Type of ndv not understood, must be list or float or int''))
      | NdvArgNum x \<Rightarrow>
          (if count self > 1
           then ([''Several raster band: using nodata value for all bands''],
                 set_ndv_apply env self (NdvSeq (replicate (count self) x)) update_array)
           else ([], set_ndv_apply env self (NdvNum x) update_array))
      | NdvArgSeq xs \<Rightarrow>
          (if count self = 1
           then ([''Only one raster band: using first nodata value provided''],
                 (case xs of
                    [] \<Rightarrow> Inl (IndexError ''list index out of range'')
                  | x # _ \<Rightarrow> set_ndv_apply env self (NdvNum x) update_array))
           else ([], set_ndv_apply env self (NdvSeq xs) update_array)))"

datatype dtypes_arg = DtypesOne dtype | DtypesSeq "dtype list" | DtypesOther

text \<open>\<^verbatim>\<open>for i in n\<close> with \<^verbatim>\<open>n\<close> an int: Python raises before the first round.\<close>

definition iterate_int :: "nat \<Rightarrow> error + nat list" where
  "iterate_int n = Inl (TypeError ''int object is not iterable'')"

text \<open>\<^verbatim>\<open>set_dtypes\<close> from the line \<^verbatim>\<open>meta = self.ds.meta\<close> on, for the settled sequence of dtypes.\<close>

definition set_dtypes_apply :: "lib \<Rightarrow> raster \<Rightarrow> dtype list \<Rightarrow> bool \<Rightarrow> error + raster" where
  "set_dtypes_apply env self dts update_array =
     (case dts of
        [] \<Rightarrow> Inl (IndexError ''tuple index out of range'')
      | t # _ \<Rightarrow>
          (let meta = (ds_meta (ds self))\<lparr>m_dtype := t\<rparr> in
           if update_array then
             (case data self of
                None \<Rightarrow> Inl (AttributeError ''NoneType object has no attribute astype'')
              | Some a \<Rightarrow>
                  (if count self = 1
                   then update env self (Some (np_astype env t a)) (Some meta) ''GTiff''
                   else
                     (let imgdata = np_astype env t a in
                      case iterate_int (shape0 imgdata) of
                        Inl e \<Rightarrow> Inl e
                      | Inr bands \<Rightarrow>
                          update env self
                            (Some (imgdata\<lparr>arr_data :=
                               map (\<lambda>i. arr_data (np_astype env t
                                      (imgdata\<lparr>arr_data := [arr_data imgdata ! i]\<rparr>)) ! 0) bands\<rparr>))
                            (Some meta) ''GTiff'')))
           else update env self None (Some meta) ''GTiff''))"

definition set_dtypes :: "lib \<Rightarrow> raster \<Rightarrow> dtypes_arg \<Rightarrow> bool \<Rightarrow> string list \<times> (error + raster)" where
  "set_dtypes env self dtypes' update_array =
     (case dtypes' of
        DtypesOther \<Rightarrow>
          ([], Inl (ValueError ''Type of dtypes not understood, must be list or type or str''))
      | DtypesOne t \<Rightarrow>
          ([''Several raster band: using data type for all bands''],
           set_dtypes_apply env self (replicate (count self) t) update_array)
      | DtypesSeq ts \<Rightarrow>
          (if count self = 1
           then ([''Only one raster band: using first data type provided''],
                 set_dtypes_apply env self ts update_array)
           else ([], set_dtypes_apply env self ts update_array)))"

subsection \<open>Saving\<close>

datatype blank_arg = BlankNone | BlankNum real | BlankOther

datatype gcps_arg = GcpsList "real list list" | GcpsOther

text \<open>What a call hands back to its caller: \<^verbatim>\<open>None\<close>, or an exception object that was returned, not raised.\<close>

datatype returned = ReturnedNone | ReturnedException error

text \<open>The first exception a check raises over a list, in order.\<close>

fun first_error :: "('a \<Rightarrow> error option) \<Rightarrow> 'a list \<Rightarrow> error option" where
  "first_error f [] = None"
| "first_error f (x # xs) = (case f x of Some e \<Rightarrow> Some e | None \<Rightarrow> first_error f xs)"

text \<open>The library calls of a list are made in order until one raises; the calls that went through are kept.\<close>

fun perform :: "lib \<Rightarrow> effect list \<Rightarrow> effect list \<Rightarrow> error option \<times> effect list" where
  "perform env done [] = (None, done)"
| "perform env done (c # cs) =
     (case rio_effect env c of
        Some e \<Rightarrow> (Some e, done)
      | None \<Rightarrow> perform env (done @ [c]) cs)"

text \<open>
  \<^verbatim>\<open>save(filename, driver, dtype, blank_value, co_opts, metadata, gcps, gcps_crs)\<close>. The
  second component of the result lists what was done to the destination.
\<close>

definition save ::
  "lib \<Rightarrow> raster \<Rightarrow> string \<Rightarrow> string \<Rightarrow> dtype option \<Rightarrow> blank_arg \<Rightarrow> (string \<times> string) list \<Rightarrow>
   (string \<times> string) list \<Rightarrow> gcps_arg \<Rightarrow> crs option \<Rightarrow> (error + returned) \<times> effect list" where
  "save env self filename' driver' dtype' blank_value co_opts metadata gcps gcps_crs =
     (case (case dtype' of
              Some t \<Rightarrow> Inr t
            | None \<Rightarrow> (case data self of
                         None \<Rightarrow> Inl (AttributeError ''NoneType object has no attribute dtype'')
                       | Some a \<Rightarrow> Inr (arr_dtype a))) of
        Inl e \<Rightarrow> (Inl e, [])
      | Inr _ \<Rightarrow>
          (case (case blank_value of
                   BlankNone \<Rightarrow>
                     (case data self of
                        None \<Rightarrow> Inr None
                      | Some a \<Rightarrow> Inr (Some a))
                 | BlankNum v \<Rightarrow>
                     Inr (Some \<lparr>arr_dtype = Float64,
                                arr_data = replicate (ds_count (ds self))
                                  (replicate (ds_height (ds self)) (replicate (ds_width (ds self)) v)),
                                arr_mask = None\<rparr>)
                 | BlankOther \<Rightarrow> Inl (ValueError ''blank_values must be one of int, float (or None).'')) of
             Inl e \<Rightarrow> (Inl e, [])
           | Inr None \<Rightarrow>
               (Inr (ReturnedException
                  (AttributeError ''No data loaded, and alterative blank_value not set.'')), [])
           | Inr (Some save_data) \<Rightarrow>
               (case perform env []
                       [OpenForWriting filename'
                          \<lparr>p_driver = driver', p_height = ds_height (ds self),
                           p_width = ds_width (ds self), p_count = ds_count (ds self),
                           p_dtype = arr_dtype save_data, p_crs = ds_crs (ds self),
                           p_transform = ds_transform (ds self), p_nodata = ds_nodata (ds self),
                           p_co_opts = co_opts\<rparr>,
                        Write save_data, UpdateTags metadata] of
                  (Some e, done) \<Rightarrow> (Inl e, done)
                | (None, done) \<Rightarrow>
                    (case gcps of
                       GcpsOther \<Rightarrow> (Inl (ValueError ''gcps must be a list''), done)
                     | GcpsList gs \<Rightarrow>
                         (if length gs > 0 then
                            (case first_error (gcp_check env) gs of
                               Some e \<Rightarrow> (Inl e, done)
                             | None \<Rightarrow>
                                 (case perform env done
                                         ((if ds_transform (ds self) \<noteq> (1, 0, 0, 0, 1, 0)
                                           then [Warn ''A geotransform previously set is going to be cleared due to the setting of GCPs.'']
                                           else []) @ [SetGcps gs gcps_crs]) of
                                    (Some e, done') \<Rightarrow> (Inl e, done')
                                  | (None, done') \<Rightarrow> (Inr ReturnedNone, done')))
                          else (Inr ReturnedNone, done))))))"

subsection \<open>Values at coordinates\<close>

text \<open>Whether pixel (row i, column j) lies in the dataset, and the stored value there.\<close>

definition in_image :: "dataset \<Rightarrow> int \<Rightarrow> int \<Rightarrow> bool" where
  "in_image d i j = (0 \<le> i \<and> i < int (ds_height d) \<and> 0 \<le> j \<and> j < int (ds_width d))"

definition pixel :: "dataset \<Rightarrow> nat \<Rightarrow> int \<Rightarrow> int \<Rightarrow> real" where
  "pixel d k i j = ds_pixels d ! k ! nat i ! nat j"

text \<open>
  One cell of a windowed read of band \<open>k\<close> (counted from 0): the value, and whether the
  cell counts as masked. Inside the dataset the value is the pixel and it is masked when
  it equals the dataset's nodata value; outside (a boundless read) the value is the fill
  value, zero when there is none, and the cell is masked.
\<close>

definition read_cell :: "dataset \<Rightarrow> real option \<Rightarrow> nat \<Rightarrow> int \<Rightarrow> int \<Rightarrow> real \<times> bool" where
  "read_cell d fill k i j =
     (if in_image d i j then (pixel d k i j, ds_nodata d = Some (pixel d k i j))
      else ((case fill of None \<Rightarrow> 0 | Some v \<Rightarrow> v), True))"

definition window_inside :: "dataset \<Rightarrow> int \<times> int \<times> int \<times> int \<Rightarrow> bool" where
  "window_inside d win = (case win of (col_off, row_off, w, h) \<Rightarrow>
     0 \<le> col_off \<and> 0 \<le> row_off \<and> col_off + w \<le> int (ds_width d) \<and> row_off + h \<le> int (ds_height d))"

text \<open>
  \<^verbatim>\<open>ds.read(window=Window(col_off, row_off, width, height), fill_value, boundless, indexes, masked)\<close>
  for a window of positive size that lies inside the dataset or is read boundless: all
  bands, or the one band \<^verbatim>\<open>indexes\<close> names (counted from 1; the 2-D result is given
  by its single-band form). Any other read is left to the library.
\<close>

definition read_window ::
  "lib \<Rightarrow> dataset \<Rightarrow> int \<times> int \<times> int \<times> int \<Rightarrow> real option \<Rightarrow> bool \<Rightarrow> int option \<Rightarrow> bool \<Rightarrow>
   error + ndarray" where
  "read_window env d win fill boundless indexes' masked' =
     (case win of (col_off, row_off, w, h) \<Rightarrow>
        if 0 < w \<and> 0 < h \<and> (boundless \<or> window_inside d win) then
          (case (case indexes' of
                   None \<Rightarrow> Inr [0 ..< ds_count d]
                 | Some b \<Rightarrow> if 1 \<le> b \<and> b \<le> int (ds_count d) then Inr [nat (b - 1)]
                             else Inl (IndexError ''band index out of range'')) of
             Inl e \<Rightarrow> Inl e
           | Inr ks \<Rightarrow>
               (let cells = (\<lambda>k. map (\<lambda>i. map (\<lambda>j. read_cell d fill k (row_off + int i) (col_off + int j))
                                              [0 ..< nat w]) [0 ..< nat h])
                in Inr \<lparr>arr_dtype = ds_dtype d,
                        arr_data = map (\<lambda>k. map (map fst) (cells k)) ks,
                        arr_mask = (if masked' then Some (map (\<lambda>k. map (map snd) (cells k)) ks)
                                    else None)\<rparr>))
        else rio_read_window env d win fill boundless indexes' masked')"

text \<open>\<^verbatim>\<open>value.flatten()\<close>: the entries in row-major order, each with its mask bit.\<close>

definition flatten :: "ndarray \<Rightarrow> (real \<times> bool) list" where
  "flatten a = (let vs = concat (concat (arr_data a)) in
     zip vs (case arr_mask a of None \<Rightarrow> replicate (length vs) False
                              | Some m \<Rightarrow> concat (concat m)))"


datatype band_arg = BandNone | BandInt int | BandOther

text \<open>What the variable \<^verbatim>\<open>window\<close> holds: the argument, or the Window object it is rebound to.\<close>

datatype win_var = WNone | WInt int | WWindow int int int int

datatype fval = FScalar "real option" | FArray "real option list"

datatype vac_value = Single fval | PerBand "(nat \<times> fval) list"

datatype vac_win = WinSingle ndarray | WinPerBand "(nat \<times> ndarray) list"

text \<open>
  The inner function \<^verbatim>\<open>format_value\<close>. It reads the variable \<^verbatim>\<open>window\<close> of the
  enclosing call when it runs; what a read returns is always an array, so the test on the
  type of \<^verbatim>\<open>value\<close> holds. \<open>two_d\<close> says that the array is 2-D (one band was asked for).
\<close>

definition format_value ::
  "((real \<times> bool) list \<Rightarrow> real option) \<Rightarrow> win_var \<Rightarrow> bool \<Rightarrow> ndarray \<Rightarrow> error + fval" where
  "format_value reducer_function window two_d val =
     (case window of
        WNone \<Rightarrow>
          (case arr_data val of
             (r0 # _) # _ \<Rightarrow>
               (let m0 = (case arr_mask val of
                            Some ((mr # _) # _) \<Rightarrow> mr
                          | _ \<Rightarrow> replicate (length r0) False);
                    row = map (\<lambda>(v, m). if m then None else Some v) (zip r0 m0)
                in if two_d then
                     (case row of [] \<Rightarrow> Inl (IndexError ''index 0 is out of bounds'')
                                | v # _ \<Rightarrow> Inr (FScalar v))
                   else Inr (FArray row))
           | _ \<Rightarrow> Inl (IndexError ''index 0 is out of bounds''))
      | _ \<Rightarrow> Inr (FScalar (reducer_function (flatten val))))"

text \<open>The loop over \<^verbatim>\<open>self.indexes\<close>: one read and one value per band.\<close>

fun read_bands ::
  "(int option \<Rightarrow> error + ndarray) \<Rightarrow> (ndarray \<Rightarrow> error + fval) \<Rightarrow> nat list \<Rightarrow>
   error + (nat \<times> fval) list \<times> (nat \<times> ndarray) list" where
  "read_bands rd fmt [] = Inr ([], [])"
| "read_bands rd fmt (b # bs) =
     (case rd (Some (int b)) of
        Inl e \<Rightarrow> Inl e
      | Inr dat \<Rightarrow>
          (case fmt dat of
             Inl e \<Rightarrow> Inl e
           | Inr v \<Rightarrow>
               (case read_bands rd fmt bs of
                  Inl e \<Rightarrow> Inl e
                | Inr (vs, ws) \<Rightarrow> Inr ((b, v) # vs, (b, dat) # ws))))"

text \<open>
  \<^verbatim>\<open>value_at_coords(x, y, latlon, band, masked, window, return_window, boundless, reducer_function)\<close>.
  The second component of the result is the window that \<^verbatim>\<open>return_window\<close> asks for.
\<close>

definition value_at_coords ::
  "lib \<Rightarrow> raster \<Rightarrow> real \<Rightarrow> real \<Rightarrow> bool \<Rightarrow> band_arg \<Rightarrow> bool \<Rightarrow> int option \<Rightarrow> bool \<Rightarrow> bool \<Rightarrow>
   ((real \<times> bool) list \<Rightarrow> real option) \<Rightarrow> error + vac_value \<times> vac_win option" where
  "value_at_coords env self x y latlon band masked' window return_window boundless reducer_function =
     (if (case window of None \<Rightarrow> False | Some w \<Rightarrow> w mod 2 \<noteq> 1)
      then Inl (ValueError ''Window must be an odd number.'')
      else if latlon then Inl NotImplementedError
      else
        case ds_index env (ds self) x y of
          Inl e \<Rightarrow> Inl e
        | Inr (row, col) \<Rightarrow>
            (case (case window of
                     Some w \<Rightarrow>
                       (let half_win = (real_of_int w - 1) / 2
                        in (py_int (real_of_int col - half_win),
                            py_int (real_of_int row - half_win), w, w))
                   | None \<Rightarrow> (col, row, 1, 1)) of
               (col', row', width', height') \<Rightarrow>
                 (let window' = WWindow col' row' width' height';
                      rd = (\<lambda>idx. read_window env (ds self) (col', row', width', height')
                                     (nodata self) boundless idx masked')
                  in case band of
                       BandNone \<Rightarrow>
                         (if nbands self = Some 1 then
                            (case rd None of
                               Inl e \<Rightarrow> Inl e
                             | Inr dat \<Rightarrow>
                                 (case format_value reducer_function window' False dat of
                                    Inl e \<Rightarrow> Inl e
                                  | Inr v \<Rightarrow>
                                      Inr (Single v,
                                           if return_window then Some (WinSingle dat) else None)))
                          else
                            (case read_bands rd (format_value reducer_function window' True)
                                    (indexes self) of
                               Inl e \<Rightarrow> Inl e
                             | Inr (vs, ws) \<Rightarrow>
                                 Inr (PerBand vs,
                                      if return_window then Some (WinPerBand ws) else None)))
                     | BandInt b \<Rightarrow>
                         (case rd (Some b) of
                            Inl e \<Rightarrow> Inl e
                          | Inr dat \<Rightarrow>
                              (case format_value reducer_function window' True dat of
                                 Inl e \<Rightarrow> Inl e
                               | Inr v \<Rightarrow>
                                   if return_window
                                   then Inl (UnboundLocalError ''win'')
                                   else Inr (Single v, None)))
                     | BandOther \<Rightarrow>
                         Inl (ValueError ''Value provided for band was not int or None.''))))"

subsection \<open>Pixel indices and coordinates\<close>

definition xy2ij :: "lib \<Rightarrow> raster \<Rightarrow> real \<Rightarrow> real \<Rightarrow> error + int \<times> int" where
  "xy2ij env self x y = ds_index env (ds self) x y"

definition ij2xy :: "lib \<Rightarrow> raster \<Rightarrow> int \<Rightarrow> int \<Rightarrow> string \<Rightarrow> error + real \<times> real" where
  "ij2xy env self i j offset = ds_xy env (ds self) i j offset"

text \<open>
  \<^verbatim>\<open>outside_image(xi, yj, index)\<close>. Without \<^verbatim>\<open>index\<close> the source assigns the result of
  \<^verbatim>\<open>xy2ij\<close> to \<^verbatim>\<open>xi, xj\<close>: \<^verbatim>\<open>xi\<close> becomes the row index and \<^verbatim>\<open>yj\<close> keeps its value.
\<close>

definition outside_image :: "lib \<Rightarrow> raster \<Rightarrow> real \<Rightarrow> real \<Rightarrow> bool \<Rightarrow> error + bool" where
  "outside_image env self xi yj index =
     (case (if \<not> index then
              (case xy2ij env self xi yj of Inl e \<Rightarrow> Inl e | Inr (i, j) \<Rightarrow> Inr (real_of_int i))
            else Inr xi) of
        Inl e \<Rightarrow> Inl e
      | Inr xi' \<Rightarrow>
          if xi' < 0 \<or> yj < 0 then Inr True
          else if xi' > real (ds_width (ds self)) \<or> yj > real (ds_height (ds self)) then Inr True
          else Inr False)"

text \<open>\<^verbatim>\<open>np.linspace(start, stop, num)\<close>, endpoint included.\<close>

definition linspace :: "real \<Rightarrow> real \<Rightarrow> nat \<Rightarrow> real list" where
  "linspace start stop num =
     (if num = 1 then [start]
      else map (\<lambda>i. start + real i * ((stop - start) / real (num - 1))) [0 ..< num])"

text \<open>\<^verbatim>\<open>xs[::int(np.sign(d))]\<close>: a slice with step zero raises.\<close>

definition slice_sign :: "real \<Rightarrow> 'a list \<Rightarrow> error + 'a list" where
  "slice_sign d xs =
     (if d > 0 then Inr xs
      else if d < 0 then Inr (rev xs)
      else Inl (ValueError ''slice step cannot be zero''))"

text \<open>\<^verbatim>\<open>np.meshgrid(xs, ys)\<close>.\<close>

definition meshgrid :: "real list \<Rightarrow> real list \<Rightarrow> real list list \<times> real list list" where
  "meshgrid xs ys = (replicate (length ys) xs, map (\<lambda>y. replicate (length xs) y) ys)"

datatype coords_out = Mesh "real list list" "real list list" | Axes "real list" "real list"

definition coords :: "raster \<Rightarrow> string \<Rightarrow> bool \<Rightarrow> error + coords_out" where
  "coords self offset grid =
     (if offset \<notin> set [''corner'', ''center''] then Inl (AssertionError ''ctype is not one of corner, center'')
      else
        (let xmin = bb_left (bounds self); ymin = bb_bottom (bounds self);
             xmax = bb_right (bounds self); ymax = bb_top (bounds self)
         in case transform self of (dx, b, c, d, dy, f) \<Rightarrow>
           (case slice_sign dx (linspace xmin xmax (width self + 1)) of
              Inl e \<Rightarrow> Inl e
            | Inr xx \<Rightarrow>
              (case slice_sign dy (linspace xmin xmax (height self + 1)) of
                 Inl e \<Rightarrow> Inl e
               | Inr yy \<Rightarrow>
                 (let xx' = (if offset = ''center'' then map (\<lambda>v. v + dx / 2) xx else xx);
                      yy' = (if offset = ''center'' then map (\<lambda>v. v + dy / 2) yy else yy)
                  in if grid then
                       (case meshgrid (butlast xx') (butlast yy') of (X, Y) \<Rightarrow> Inr (Mesh X Y))
                     else Inr (Axes (butlast xx') (butlast yy')))))))"

subsection \<open>The neighbourhood of a pixel\<close>


definition window_entry :: "dataset \<Rightarrow> real option \<Rightarrow> bool \<Rightarrow> nat \<Rightarrow> int \<times> int \<Rightarrow> real \<times> bool" where
  "window_entry d fill masked' k cell = (case cell of (i, j) \<Rightarrow>
     (fst (read_cell d fill k i j), masked' \<and> snd (read_cell d fill k i j)))"



subsection \<open>A stand-in for the libraries, and example rasters\<close>

text \<open>
  To run the model on concrete inputs the library calls need some behaviour. \<open>sim_lib\<close> is
  a small one: a dataset is created from a profile and an array of matching shape and type,
  two files exist, masking and warping hand back the array they were given, and pixel
  indices are the floor of the inverse of a transform without rotation.
\<close>

definition sim_dataset :: "meta \<Rightarrow> ndarray \<Rightarrow> dataset" where
  "sim_dataset m a = \<lparr>ds_name = ''/vsimem/raster.tif'', ds_driver = m_driver m,
     ds_dtype = m_dtype m,
     ds_nodata = (case m_nodata m of NdvNum v \<Rightarrow> Some v | NdvSeq (v # _) \<Rightarrow> Some v | _ \<Rightarrow> None),
     ds_width = m_width m, ds_height = m_height m, ds_count = m_count m, ds_crs = m_crs m,
     ds_transform = m_transform m, ds_pixels = arr_data a\<rparr>"

definition sim_create :: "meta \<Rightarrow> ndarray option \<Rightarrow> error + memoryfile" where
  "sim_create m imgdata = (case imgdata of
       None \<Rightarrow> Inl (LibraryError ''nothing to write'')
     | Some a \<Rightarrow>
         (if arr_dtype a = m_dtype m \<and> shape0 a = m_count m \<and> shape1 a = m_height m
               \<and> shape2 a = m_width m
          then Inr (MemoryFile (Some (sim_dataset m a)))
          else Inl (ValueError ''the array does not match the profile'')))"

definition sim_index :: "dataset \<Rightarrow> real \<Rightarrow> real \<Rightarrow> error + int \<times> int" where
  "sim_index d x y = (case ds_transform d of (a, b, c, d', e, f) \<Rightarrow>
     if a = 0 \<or> e = 0 then Inl (LibraryError ''the transform is not invertible'')
     else Inr (\<lfloor>(y - f) / e\<rfloor>, \<lfloor>(x - c) / a\<rfloor>))"

text \<open>A single-band file of 4 by 4 pixels with nodata value 255, and a file of three bands of 2 by 2.\<close>

definition dem_dataset :: dataset where
  "dem_dataset = \<lparr>ds_name = ''dem.tif'', ds_driver = ''GTiff'', ds_dtype = UInt8,
     ds_nodata = Some 255, ds_width = 4, ds_height = 4, ds_count = 1, ds_crs = EPSG 32645,
     ds_transform = (30, 0, 478000, 0, -30, 3108140),
     ds_pixels = [[[1, 2, 3, 4], [5, 6, 7, 8], [9, 10, 255, 12], [13, 14, 15, 16]]]\<rparr>"

definition rgb_dataset :: dataset where
  "rgb_dataset = \<lparr>ds_name = ''rgb.tif'', ds_driver = ''GTiff'', ds_dtype = UInt8,
     ds_nodata = Some 0, ds_width = 2, ds_height = 2, ds_count = 3, ds_crs = EPSG 32645,
     ds_transform = (30, 0, 478000, 0, -30, 3108140),
     ds_pixels = [[[1, 0], [3, 4]], [[5, 6], [0, 8]], [[9, 10], [11, 12]]]\<rparr>"

definition sim_lib :: lib where
  "sim_lib = \<lparr>
     rio_open = (\<lambda>as_memfile s. if s = ''dem.tif'' then Inr dem_dataset
                                 else if s = ''rgb.tif'' then Inr rgb_dataset
                                 else Inl (LibraryError ''RasterioIOError'')),
     rio_create = sim_create,
     rio_mask = (\<lambda>d shapes. Inr (ds_read d False, ds_transform d)),
     rio_warp = (\<lambda>src kw. case destination kw of
                   Some dst \<Rightarrow> Inr (dst, (case dst_transform_kw kw of Given t \<Rightarrow> t
                                            | _ \<Rightarrow> src_transform kw))
                 | None \<Rightarrow> (case src of Some a \<Rightarrow> Inr (a, src_transform kw)
                                        | None \<Rightarrow> Inl (LibraryError ''no source''))),
     rio_warp_nonfinite = (\<lambda>src kw. Inl (LibraryError ''the transform is not finite'')),
     windows_from_bounds = (\<lambda>xmin ymin xmax ymax t. case t of (a, b, c, d, e, f) \<Rightarrow>
                   if a = 0 \<or> e = 0 then Inl (LibraryError ''the transform is not invertible'')
                   else Inr ((xmax - xmin) / a, (ymin - ymax) / e)),
     crs_from_user_input = (\<lambda>c. case c of CrsEPSG n \<Rightarrow> Inr (EPSG n)
                                          | CrsString s \<Rightarrow> Inr (WKT s)
                                          | CrsObject c' \<Rightarrow> Inr c'),
     crs_from_epsg = (\<lambda>n. Inr (EPSG n)),
     ds_index = sim_index,
     ds_xy = (\<lambda>d i j offset. case ds_transform d of (a, b, c, d', e, f) \<Rightarrow>
                   Inr (c + a * (real_of_int j + 1 / 2), f + e * (real_of_int i + 1 / 2))),
     np_astype = (\<lambda>t a. a\<lparr>arr_dtype := t\<rparr>),
     os_abspath = (\<lambda>s. ''/data/'' @ s),
     os_exists = (\<lambda>s. s = ''dem.tif'' \<or> s = ''rgb.tif''),
     ds_hasattr = (\<lambda>a. a = ''meta'' \<or> a = ''profile''),
     memfile_grid = (\<lambda>mf. Inl (AttributeError ''MemoryFile object has no attribute crs'')),
     rio_read_window = (\<lambda>d win fill boundless idx m. Inl (LibraryError ''window'')),
     rio_effect = (\<lambda>c. None),
     gcp_check = (\<lambda>g. if length g < 4 then Some (ValueError ''row, col, x and y are required'')
                       else None)\<rparr>"

text \<open>
  The raster of the example scenario: one band of 100 by 100 pixels of 30 m, with the
  top left corner at (478000, 3108140).
\<close>

definition example_data :: ndarray where
  "example_data = \<lparr>arr_dtype = UInt8, arr_data = [replicate 100 (replicate 100 0)],
     arr_mask = None\<rparr>"

definition example_raster :: raster where
  "example_raster = load (fresh None
     \<lparr>ds_name = ''/vsimem/raster.tif'', ds_driver = ''GTiff'', ds_dtype = UInt8,
      ds_nodata = None, ds_width = 100, ds_height = 100, ds_count = 1, ds_crs = EPSG 32645,
      ds_transform = (30, 0, 478000, 0, -30, 3108140),
      ds_pixels = [replicate 100 (replicate 100 0)]\<rparr>)
     \<lparr>saved_attrs := default_attrs, isLoaded := True\<rparr>"

text \<open>The two files as Raster objects, opened from disk with their data loaded.\<close>

definition dem :: raster where
  "dem = load (fresh (Some ''/data/dem.tif'') dem_dataset)
     \<lparr>saved_attrs := default_attrs, isLoaded := True, matches_disk := Some True\<rparr>"

definition rgb :: raster where
  "rgb = load (fresh (Some ''/data/rgb.tif'') rgb_dataset)
     \<lparr>saved_attrs := default_attrs, isLoaded := True, matches_disk := Some True\<rparr>"

section \<open>Properties\<close>

subsection \<open>Helper facts\<close>

text \<open>Rounding: integers and dyadic fractions of at most 53 bits are doubles.\<close>

lemma round_half_even_of_int: "round_half_even (real_of_int z) = z"
  by (simp add: round_half_even_def)

lemma exponent_eq:
  assumes "2 powr real_of_int n \<le> \<bar>x\<bar>" and "\<bar>x\<bar> < 2 powr real_of_int (n + 1)"
  shows "\<lfloor>log 2 \<bar>x\<bar>\<rfloor> = n"
proof -
  have "0 < 2 powr real_of_int n" by simp
  then have pos: "0 < \<bar>x\<bar>" using assms(1) by linarith
  have "real_of_int n \<le> log 2 \<bar>x\<bar>"
    using assms(1) pos by (simp add: le_log_iff)
  moreover have "log 2 \<bar>x\<bar> < real_of_int (n + 1)"
    using assms(2) pos by (simp add: log_less_iff)
  ultimately show ?thesis by linarith
qed

lemma powr_int_diff: "(2::real) powr real_of_int (int a - int k) = 2 ^ a / 2 ^ k"
proof -
  have "(2::real) powr real_of_int (int a - int k) = 2 powr (real a - real k)" by simp
  also have "\<dots> = 2 powr real a / 2 powr real k" by (rule powr_diff)
  also have "\<dots> = 2 ^ a / 2 ^ k" by (simp add: powr_realpow)
  finally show ?thesis .
qed

lemma fl_eval:
  fixes k :: nat
  assumes "2 ^ 52 \<le> \<bar>x\<bar> * 2 ^ k" and "\<bar>x\<bar> * 2 ^ k < 2 ^ 53" and "k \<le> 1074"
  shows "fl x = real_of_int (round_half_even (x * 2 ^ k)) / 2 ^ k"
proof -
  have x0: "x \<noteq> 0" using assms(1) by auto
  have lo: "2 powr real_of_int (int 52 - int k) \<le> \<bar>x\<bar>"
    unfolding powr_int_diff using assms(1) by (simp add: field_simps)
  have "int 52 - int k + 1 = int 53 - int k" by simp
  then have hi: "\<bar>x\<bar> < 2 powr real_of_int (int 52 - int k + 1)"
    using assms(2) by (simp only: powr_int_diff) (simp add: field_simps)
  have e: "max \<lfloor>log 2 \<bar>x\<bar>\<rfloor> (- 1022) - 52 = int 0 - int k"
    using exponent_eq [OF lo hi] assms(3) by simp
  have q: "(2::real) powr real_of_int (int 0 - int k) = 1 / 2 ^ k"
    unfolding powr_int_diff by simp
  show ?thesis
    unfolding fl_def Let_def e q using x0 by simp
qed

lemma round_half_even_minus: "round_half_even (- x) = - round_half_even x"
proof (cases "x = real_of_int \<lfloor>x\<rfloor>")
  case True
  then have "round_half_even x = \<lfloor>x\<rfloor>" "round_half_even (- x) = - \<lfloor>x\<rfloor>"
    using round_half_even_of_int [of "\<lfloor>x\<rfloor>"] round_half_even_of_int [of "- \<lfloor>x\<rfloor>"] by simp_all
  then show ?thesis by simp
next
  case False
  then have lt: "real_of_int \<lfloor>x\<rfloor> < x" by linarith
  have neg: "\<lfloor>- x\<rfloor> = - \<lfloor>x\<rfloor> - 1"
  proof (rule floor_unique)
    have up: "x < real_of_int \<lfloor>x\<rfloor> + 1" by linarith
    have c: "real_of_int (- \<lfloor>x\<rfloor> - 1) = - real_of_int \<lfloor>x\<rfloor> - 1" by simp
    show "real_of_int (- \<lfloor>x\<rfloor> - 1) \<le> - x" unfolding c using up by linarith
    show "- x < real_of_int (- \<lfloor>x\<rfloor> - 1) + 1" unfolding c using lt by linarith
  qed
  have par: "even (- \<lfloor>x\<rfloor> - 1) \<longleftrightarrow> odd \<lfloor>x\<rfloor>" by simp
  have frac: "- x - real_of_int (- \<lfloor>x\<rfloor> - 1) = 1 - (x - real_of_int \<lfloor>x\<rfloor>)" by simp
  show ?thesis
    unfolding round_half_even_def Let_def neg par frac
    by (cases "x - real_of_int \<lfloor>x\<rfloor> < 1 / 2"; cases "x - real_of_int \<lfloor>x\<rfloor> > 1 / 2") auto
qed

lemma fl_minus: "fl (- x) = - fl x"
  by (simp add: fl_def Let_def round_half_even_minus)

lemma fl_dyadic:
  fixes k :: nat
  assumes "\<bar>m\<bar> < 2 ^ 53" and "k \<le> 1074"
  shows "fl (real_of_int m / 2 ^ k) = real_of_int m / 2 ^ k"
proof (cases "m = 0")
  case True
  then show ?thesis by (simp add: fl_def)
next
  case False
  define x where "x = real_of_int m / 2 ^ k"
  have x0: "x \<noteq> 0" "0 < \<bar>x\<bar>" using False by (simp_all add: x_def)
  have "\<bar>x\<bar> * 2 ^ k = real_of_int \<bar>m\<bar>" by (simp add: x_def abs_divide)
  also have "\<dots> < 2 ^ 53" using assms by (metis of_int_less_numeral_power_cancel_iff)
  finally have "\<bar>x\<bar> < 2 ^ 53 / 2 ^ k" by (simp add: field_simps)
  also have "\<dots> = 2 powr (53 - real k)"
    by (simp add: powr_diff powr_realpow)
  finally have "log 2 \<bar>x\<bar> < 53 - real k"
    using x0(2) by (simp add: log_less_iff)
  then have "\<lfloor>log 2 \<bar>x\<bar>\<rfloor> \<le> 52 - int k" by linarith
  then have "0 \<le> - int k - (max \<lfloor>log 2 \<bar>x\<bar>\<rfloor> (- 1022) - 52)" using assms(2) by simp
  then obtain j :: nat where "- int k - (max \<lfloor>log 2 \<bar>x\<bar>\<rfloor> (- 1022) - 52) = int j"
    using nonneg_int_cases by blast
  then have j: "max \<lfloor>log 2 \<bar>x\<bar>\<rfloor> (- 1022) - 52 = - int k - int j" by linarith
  have pj: "(2::real) powr real_of_int (- int k - int j) = 1 / (2 ^ k * 2 ^ j)"
  proof -
    have "(2::real) powr real_of_int (- int k - int j) = 2 powr (- real (k + j))" by simp
    also have "\<dots> = 1 / 2 ^ (k + j)" by (simp only: powr_minus powr_realpow) (simp add: divide_simps)
    finally show ?thesis by (simp add: power_add)
  qed
  have scaled: "x / (1 / (2 ^ k * 2 ^ j)) = real_of_int (m * 2 ^ j)"
    by (simp add: x_def)
  have "fl x = real_of_int (m * 2 ^ j) * (1 / (2 ^ k * 2 ^ j))"
    unfolding fl_def Let_def j pj scaled round_half_even_of_int using x0(1) by simp
  also have "\<dots> = x" by (simp add: x_def)
  finally show ?thesis unfolding x_def .
qed

lemma fl_numeral: "numeral n < (2 ^ 53 :: int) \<Longrightarrow> fl (numeral n) = numeral n"
  using fl_dyadic [of "numeral n" 0] by simp

lemma fl_neg_numeral: "numeral n < (2 ^ 53 :: int) \<Longrightarrow> fl (- numeral n) = - numeral n"
  using fl_numeral [of n] by (simp add: fl_minus)

lemma fl_one: "fl 1 = 1"
  using fl_dyadic [of 1 0] by simp

lemma fl_zero: "fl 0 = 0"
  by (simp add: fl_def)

lemma overflows_minus: "overflows (- x) = overflows x"
  by (simp add: overflows_def fl_minus)

lemma representable_minus: "representable (- x) = representable x"
  by (auto simp: representable_def fl_minus)

lemma representable_not_overflows: "representable x \<Longrightarrow> \<not> overflows x"
  by (simp add: representable_def overflows_def)

lemma representable_dyadic:
  fixes k :: nat
  assumes "\<bar>m\<bar> < 2 ^ 53" and "k \<le> 1074"
  shows "representable (real_of_int m / 2 ^ k)"
proof -
  have "\<bar>real_of_int m\<bar> < 2 ^ 53"
    using assms(1) by (metis of_int_abs of_int_less_numeral_power_cancel_iff)
  moreover have "(2::real) ^ 53 \<le> 2 ^ 1024" by simp
  ultimately have a: "\<bar>real_of_int m\<bar> < 2 ^ 1024" by (rule less_le_trans)
  have "\<bar>real_of_int m / 2 ^ k\<bar> = \<bar>real_of_int m\<bar> / 2 ^ k" by simp
  also have "\<dots> \<le> \<bar>real_of_int m\<bar>" by (simp add: field_simps mult_le_cancel_left1)
  finally have "\<bar>real_of_int m / 2 ^ k\<bar> < 2 ^ 1024" using a by (rule le_less_trans)
  then show ?thesis
    unfolding representable_def fl_dyadic [OF assms] by simp
qed

lemma representable_numeral: "numeral n < (2 ^ 53 :: int) \<Longrightarrow> representable (numeral n)"
  using representable_dyadic [of "numeral n" 0] by simp

lemma overflows_numeral: "numeral n < (2 ^ 53 :: int) \<Longrightarrow> \<not> overflows (numeral n)"
  by (rule representable_not_overflows) (rule representable_numeral)

lemma overflows_zero: "\<not> overflows 0"
  by (simp add: overflows_def fl_zero)

lemma read_attrs_default:
  "read_attrs env self AttrsNone =
     Inr (self\<lparr>saved_attrs := default_attrs,
                bounds := ds_bounds (ds self), count := ds_count (ds self),
                crs := ds_crs (ds self), driver := ds_driver (ds self),
                dtypes := ds_dtypes (ds self), height := ds_height (ds self),
                indexes := ds_indexes (ds self), name := ds_name (ds self),
                nodata := ds_nodata (ds self),
                shape := (ds_height (ds self), ds_width (ds self)),
                transform := ds_transform (ds self), width := ds_width (ds self)\<rparr>)"
  by (simp add: read_attrs_def list_ex_iff)

lemma case_replicate:
  "(case replicate n x of [] \<Rightarrow> a | r # rs \<Rightarrow> f r) = (if n = 0 then a else f x)"
  by (cases n) simp_all

lemma rev_map_upt: "rev (map f [0 ..< n]) = map (\<lambda>i. f (n - 1 - i)) [0 ..< n]"
  by (rule nth_equalityI) (auto simp: rev_nth)

lemma butlast_map_upt: "butlast (map f [0 ..< Suc n]) = map f [0 ..< n]"
  by (simp add: map_butlast [symmetric])

lemma linspace_Suc:
  "0 < n \<Longrightarrow> linspace a b (Suc n) = map (\<lambda>i. a + real i * ((b - a) / real n)) [0 ..< Suc n]"
  by (simp add: linspace_def del: upt_Suc)

subsection \<open>The example rasters are what the constructors build\<close>

lemma dem_opened:
  "raster_init sim_lib (FnStr ''dem.tif'') AttrsNone True BandsNone True False = Inr dem"
  by (simp add: raster_init_def read_attrs_default sim_lib_def dem_def fresh_def load_def Let_def)

lemma rgb_opened:
  "raster_init sim_lib (FnStr ''rgb.tif'') AttrsNone True BandsNone True False = Inr rgb"
  by (simp add: raster_init_def read_attrs_default sim_lib_def rgb_def fresh_def load_def Let_def)

lemma example_built:
  "from_array sim_lib example_data (TTuple [30, 0, 478000, 0, -30, 3108140]) (CrsInt 32645) None
     = Inr example_raster"
  by (simp add: from_array_def affine_of_tuple_def raster_init_def read_attrs_default sim_lib_def
      sim_create_def sim_dataset_def example_data_def example_raster_def fresh_def load_def Let_def
      memfile_open_def shape0_def shape1_def shape2_def ds_read_def nodata_mask_def case_replicate)

lemma example_bounds:
  "bounds example_raster =
     \<lparr>bb_left = 478000, bb_bottom = 3105140, bb_right = 481000, bb_top = 3108140\<rparr>"
  by (simp add: example_raster_def load_def fresh_def ds_bounds_def Let_def)

lemma example_grid:
  "width example_raster = 100" "height example_raster = 100"
  "transform example_raster = (30, 0, 478000, 0, -30, 3108140)"
  by (simp_all add: example_raster_def load_def fresh_def Let_def)

text \<open>The example files and the stand-in library, field by field.\<close>

lemma dem_fields:
  "ds dem = dem_dataset" "count dem = 1" "nodata dem = Some 255" "isLoaded dem"
  "matches_disk dem = Some True" "nbands dem = Some 1" "data dem = Some (ds_read dem_dataset True)"
  "transform dem = (30, 0, 478000, 0, -30, 3108140)" "crs dem = EPSG 32645"
  "width dem = 4" "height dem = 4" "dtypes dem = [UInt8]"
  "bounds dem = \<lparr>bb_left = 478000, bb_bottom = 3108020, bb_right = 478120, bb_top = 3108140\<rparr>"
  by (simp_all add: dem_def load_def fresh_def Let_def dem_dataset_def shape0_def ds_read_def
      ds_bounds_def ds_dtypes_def)

lemma sim_fields:
  "rio_create sim_lib = sim_create" "ds_index sim_lib = sim_index"
  "rio_mask sim_lib = (\<lambda>d shapes. Inr (ds_read d False, ds_transform d))"
  "np_astype sim_lib = (\<lambda>t a. a\<lparr>arr_dtype := t\<rparr>)"
  by (simp_all add: sim_lib_def)

lemma ex_shift: "\<exists>r. shift sim_lib dem 30 (-30) = Inr r"
  by (simp add: shift_def update_def dem_fields sim_fields sim_create_def ds_meta_def Let_def
      dem_dataset_def ds_read_def shape0_def shape1_def shape2_def memfile_open_def read_attrs_default)

lemma rgb_fields: "count rgb = 3" "data rgb = Some (ds_read rgb_dataset True)" "nodata rgb = Some 0"
  "ds rgb = rgb_dataset" "isLoaded rgb" "matches_disk rgb = Some True" "nbands rgb = Some 3"
  by (simp_all add: rgb_def load_def fresh_def Let_def rgb_dataset_def shape0_def ds_read_def)

subsection \<open>outside_image\<close>

text \<open>With raster indices, a negative index or one above the width or height is outside, and (0, 0) is inside.\<close>

lemma outside_image_beyond:
  "xi < 0 \<or> yj < 0 \<or> xi > real (ds_width (ds self)) \<or> yj > real (ds_height (ds self)) \<Longrightarrow>
   outside_image env self xi yj True = Inr True"
  by (auto simp: outside_image_def)

lemma outside_image_origin: "outside_image env self 0 0 True = Inr False"
  by (simp add: outside_image_def)

text \<open>
  C1. For every raster, \<^verbatim>\<open>outside_image\<close> called with the index pair (width, height), one
  past the last valid pixel index, answers \<open>False\<close>: the comparison with the width and
  the height is strict, so this pair is not reported as outside.
\<close>

theorem outside_image_width_height:
  "outside_image env self (real (ds_width (ds self))) (real (ds_height (ds self))) True = Inr False"
  by (simp add: outside_image_def)

subsection \<open>coords\<close>

lemma linspace_axis:
  "0 < n \<Longrightarrow> butlast (linspace a b (n + 1)) = map (\<lambda>j. a + real j * ((b - a) / real n)) [0 ..< n]"
  using linspace_Suc [of n a b] butlast_map_upt [of "\<lambda>i. a + real i * ((b - a) / real n)" n]
  by simp

lemma linspace_axis_rev:
  assumes "0 < n"
  shows "butlast (rev (linspace a b (n + 1))) = map (\<lambda>i. b - real i * ((b - a) / real n)) [0 ..< n]"
proof -
  let ?f = "\<lambda>i. a + real i * ((b - a) / real n)"
  have "rev (linspace a b (n + 1)) = map (\<lambda>i. ?f (Suc n - 1 - i)) [0 ..< Suc n]"
    using linspace_Suc [OF assms, of a b] rev_map_upt [of ?f "Suc n"] by simp
  then have "butlast (rev (linspace a b (n + 1))) = map (\<lambda>i. ?f (Suc n - 1 - i)) [0 ..< n]"
    using butlast_map_upt [of "\<lambda>i. ?f (Suc n - 1 - i)" n] by simp
  also have "\<dots> = map (\<lambda>i. b - real i * ((b - a) / real n)) [0 ..< n]"
  proof (rule map_cong [OF refl])
    fix i assume "i \<in> set [0 ..< n]"
    then have "i < n" by simp
    then have "real (Suc n - 1 - i) = real n - real i" by (simp add: of_nat_diff)
    then show "?f (Suc n - 1 - i) = b - real i * ((b - a) / real n)"
      using assms by (simp add: field_simps)
  qed
  finally show ?thesis .
qed

text \<open>
  C2. On the single-band raster of 100 by 100 pixels of 30 m with transform
  (30, 0, 478000, 0, -30, 3108140), \<^verbatim>\<open>coords(offset='corner')\<close> gives x values
  478000 + 30 j along the columns, and y values 481000 - 30 i down the rows: the y axis is
  laid out between the x bounds, so it starts at 481000 and not at 3108140. The same axes
  come back with \<^verbatim>\<open>grid=False\<close>.
\<close>

theorem coords_example:
  "coords example_raster ''corner'' True =
     Inr (Mesh (replicate 100 (map (\<lambda>j. 478000 + 30 * real j) [0 ..< 100]))
               (map (\<lambda>i. replicate 100 (481000 - 30 * real i)) [0 ..< 100]))
   \<and> coords example_raster ''corner'' False =
     Inr (Axes (map (\<lambda>j. 478000 + 30 * real j) [0 ..< 100])
               (map (\<lambda>i. 481000 - 30 * real i) [0 ..< 100]))"
proof -
  have xs: "butlast (linspace 478000 481000 101) = map (\<lambda>j. 478000 + 30 * real j) [0 ..< 100]"
    using linspace_axis [of 100 478000 481000] by (simp add: mult.commute)
  have ys: "rev (tl (linspace 478000 481000 101)) = map (\<lambda>i. 481000 - 30 * real i) [0 ..< 100]"
    using linspace_axis_rev [of 100 478000 481000] by (simp add: mult.commute)
  have len: "length (linspace 478000 481000 101) = 101"
    by (simp add: linspace_def)
  show ?thesis
    by (simp add: coords_def example_grid example_bounds slice_sign_def meshgrid_def Let_def xs ys len)
qed

subsection \<open>The constructor\<close>

text \<open>
  C10. For every \<^verbatim>\<open>filename\<close> argument that is neither a str nor a MemoryFile (an array,
  or anything else), the constructor raises TypeError, from the \<^verbatim>\<open>isinstance\<close> test
  against \<^verbatim>\<open>np.array\<close>; so it never raises one of the two ValueErrors written for such
  arguments.
\<close>

theorem init_unrecognised_filename:
  assumes "\<forall>s. fname \<noteq> FnStr s" and "\<forall>mf. fname \<noteq> FnMemoryFile mf"
  shows "raster_init env fname attrs load_data bands masked' as_memfile =
           Inl (TypeError ''isinstance() arg 2 must be a type or tuple of types'')
         \<and> (\<forall>msg. raster_init env fname attrs load_data bands masked' as_memfile \<noteq> Inl (ValueError msg))"
  using assms by (cases fname) (simp_all add: raster_init_def isinstance_np_array_def)

theorem init_unrecognised_filename_witness:
  "raster_init sim_lib (FnArray example_data) AttrsNone True BandsNone True False =
     Inl (TypeError ''isinstance() arg 2 must be a type or tuple of types'')
   \<and> raster_init sim_lib FnOther AttrsNone True BandsNone True False \<noteq>
     Inl (ValueError ''filename argument not recognised.'')"
  using init_unrecognised_filename [of "FnArray example_data" sim_lib AttrsNone True BandsNone True False]
    init_unrecognised_filename [of FnOther sim_lib AttrsNone True BandsNone True False]
  by simp

subsection \<open>save\<close>

text \<open>
  C9. A Raster with no data loaded, saved with \<^verbatim>\<open>blank_value=None\<close> and an explicit
  \<^verbatim>\<open>dtype\<close>: the call does not raise. It hands the AttributeError object back as its
  return value, and nothing is done to the destination.
\<close>

theorem save_without_data_returns:
  "save env (self\<lparr>data := None\<rparr>) filename' driver' (Some t) BlankNone co_opts metadata gcps gcps_crs =
     (Inr (ReturnedException (AttributeError ''No data loaded, and alterative blank_value not set.'')), [])"
  by (simp add: save_def)

text \<open>
  With the default \<^verbatim>\<open>dtype=None\<close> the first line of \<^verbatim>\<open>save\<close> reads
  \<^verbatim>\<open>self.data.dtype\<close>, which raises AttributeError on the missing data, whatever the
  blank value; nothing is written either.
\<close>

lemma save_without_data_default_dtype:
  "save env (self\<lparr>data := None\<rparr>) filename' driver' None blank_value co_opts metadata gcps gcps_crs =
     (Inl (AttributeError ''NoneType object has no attribute dtype''), [])"
  by (simp add: save_def)

subsection \<open>set_dtypes\<close>

text \<open>
  C8. On a loaded Raster of more than one band, \<^verbatim>\<open>set_dtypes\<close> with
  \<^verbatim>\<open>update_array=True\<close> raises TypeError, for a single dtype and for a non-empty
  sequence of dtypes alike: the loop over the bands iterates over the integer
  \<^verbatim>\<open>imgdata.shape[0]\<close>. Nothing is committed through the update path.
\<close>

theorem set_dtypes_multiband_raises:
  assumes "1 < count self" and "data self = Some a"
  shows "snd (set_dtypes env self (DtypesOne t) True) = Inl (TypeError ''int object is not iterable'')
       \<and> snd (set_dtypes env self (DtypesSeq (t # ts)) True) = Inl (TypeError ''int object is not iterable'')"
proof -
  obtain n where n: "count self = Suc n" using assms(1) by (cases "count self") auto
  show ?thesis
    using assms by (simp add: set_dtypes_def set_dtypes_apply_def iterate_int_def n Let_def)
qed

theorem set_dtypes_multiband_raises_witness:
  "snd (set_dtypes sim_lib rgb (DtypesOne Int8) True) = Inl (TypeError ''int object is not iterable'')
   \<and> snd (set_dtypes sim_lib rgb (DtypesSeq [Int8, Int8, Int8]) True) = Inl (TypeError ''int object is not iterable'')"
  using set_dtypes_multiband_raises [of rgb "ds_read rgb_dataset True" sim_lib Int8 "[Int8, Int8]"]
  by (simp add: rgb_fields)

subsection \<open>set_ndv\<close>

text \<open>
  C7. On a Raster of more than one band, \<^verbatim>\<open>set_ndv\<close> with a single number leaves the
  Raster as \<^verbatim>\<open>set_ndv\<close> does with the list that repeats the number once per band
  (or raises the same exception), with and without \<^verbatim>\<open>update_array\<close>. Only the notice
  printed differs.
\<close>

theorem set_ndv_broadcast:
  "1 < count self \<Longrightarrow>
   snd (set_ndv env self (NdvArgNum x) update_array) =
   snd (set_ndv env self (NdvArgSeq (replicate (count self) x)) update_array)"
  by (simp add: set_ndv_def)

theorem set_ndv_broadcast_witness:
  "snd (set_ndv sim_lib rgb (NdvArgNum 255) True) =
   snd (set_ndv sim_lib rgb (NdvArgSeq [255, 255, 255]) True)"
  using set_ndv_broadcast [of rgb sim_lib 255 True]
  by (simp add: rgb_fields numeral_3_eq_3)


subsection \<open>The update path and the matches_disk flag\<close>

text \<open>A completed \<^verbatim>\<open>_update\<close> leaves the flag false, and the four mutating methods end in it.\<close>

lemma update_matches_disk:
  "update env self imgdata metadata vrt_to_driver = Inr r \<Longrightarrow> matches_disk r = Some False"
  by (auto simp: update_def read_attrs_default load_def Let_def split: sum.splits if_splits)

lemma crop_via_update:
  "crop env self cropGeom mode = Inr r \<Longrightarrow>
   \<exists>img m. update env self (Some img) (Some m) ''GTiff'' = Inr r"
  unfolding crop_def Let_def
  by (auto split: if_splits sum.splits crop_geom.splits list.splits option.splits prod.splits)

lemma shift_via_update:
  "shift env self xoff yoff = Inr r \<Longrightarrow> \<exists>m. update env self None (Some m) ''GTiff'' = Inr r"
  unfolding shift_def Let_def by (auto split: prod.splits)

lemma set_ndv_apply_via_update:
  "set_ndv_apply env self v update_array = Inr r \<Longrightarrow>
   \<exists>self' img m. update env self' img (Some m) ''GTiff'' = Inr r"
  unfolding set_ndv_apply_def Let_def
  by (auto split: option.splits if_splits sum.splits)

lemma set_ndv_via_update:
  "snd (set_ndv env self ndv' update_array) = Inr r \<Longrightarrow>
   \<exists>self' img m. update env self' img (Some m) ''GTiff'' = Inr r"
  unfolding set_ndv_def
  by (auto split: ndv_arg.splits if_splits list.splits dest: set_ndv_apply_via_update)

lemma set_dtypes_apply_via_update:
  "set_dtypes_apply env self dts update_array = Inr r \<Longrightarrow>
   \<exists>img m. update env self img (Some m) ''GTiff'' = Inr r"
  unfolding set_dtypes_apply_def Let_def iterate_int_def
  by (auto split: list.splits if_splits option.splits sum.splits)

lemma set_dtypes_via_update:
  "snd (set_dtypes env self dtypes' update_array) = Inr r \<Longrightarrow>
   \<exists>img m. update env self img (Some m) ''GTiff'' = Inr r"
  unfolding set_dtypes_def
  by (auto split: dtypes_arg.splits if_splits dest: set_dtypes_apply_via_update)

text \<open>A Raster opened from a MemoryFile, as \<^verbatim>\<open>from_array\<close> and \<^verbatim>\<open>reproject\<close> make it, has the flag unset.\<close>

lemma init_memfile_matches_disk:
  "raster_init env (FnMemoryFile mf) attrs load_data bands masked' as_memfile = Inr r \<Longrightarrow>
   matches_disk r = None"
  by (auto simp: raster_init_def read_attrs_def fresh_def load_def Let_def
      split: sum.splits if_splits option.splits)

lemma from_array_matches_disk:
  "from_array env data' transform' crs' nodata' = Inr r \<Longrightarrow> matches_disk r = None"
  unfolding from_array_def
  by (auto split: sum.splits dest: init_memfile_matches_disk)

lemma reproject_matches_disk:
  "reproject env self dst_ref dst_crs dst_size dst_bounds dst_res nodata' dtype' resampling' = Inr r
   \<Longrightarrow> matches_disk r = None"
  unfolding reproject_def
  by (auto split: sum.splits prod.splits option.splits grid_transform.splits if_splits
      dest: from_array_matches_disk)


text \<open>Runs on the example file that complete.\<close>

lemma ex_update: "\<exists>r. update sim_lib dem None None ''GTiff'' = Inr r"
  by (simp add: update_def dem_fields sim_fields sim_create_def ds_meta_def Let_def
      dem_dataset_def ds_read_def shape0_def shape1_def shape2_def memfile_open_def read_attrs_default)

lemma ex_crop: "\<exists>r. crop sim_lib dem (GeomList [478000, 3108020, 478120, 3108140]) ''match_pixel'' = Inr r"
  by (simp add: crop_def update_def dem_fields sim_fields sim_create_def ds_meta_def Let_def
      dem_dataset_def ds_read_def shape0_def shape1_def shape2_def memfile_open_def read_attrs_default)

lemma ex_set_ndv: "\<exists>r. snd (set_ndv sim_lib dem (NdvArgNum 0) True) = Inr r"
  by (simp add: set_ndv_def set_ndv_apply_def fill_single_def ndv_scalar_def assign_where_def
      update_def dem_fields sim_fields sim_create_def ds_meta_def Let_def nodata_mask_def
      dem_dataset_def ds_read_def shape0_def shape1_def shape2_def memfile_open_def read_attrs_default)

lemma ex_set_dtypes: "\<exists>r. snd (set_dtypes sim_lib dem (DtypesOne Int8) True) = Inr r"
  by (simp add: set_dtypes_def set_dtypes_apply_def
      update_def dem_fields sim_fields sim_create_def ds_meta_def Let_def nodata_mask_def
      dem_dataset_def ds_read_def shape0_def shape1_def shape2_def memfile_open_def read_attrs_default)

lemma ex_reproject:
  "\<exists>r. reproject sim_lib dem (Some (RefRaster dem)) None None None None None None Nearest = Inr r"
  by (simp add: reproject_def reproject_args_def read_ref_def reproject_kwargs_def grid_from_res_def
      from_bounds_def overflows_numeral overflows_minus np_full_def from_array_def raster_init_def fresh_def load_def
      dem_fields sim_lib_def sim_create_def sim_dataset_def Let_def
      shape0_def shape1_def shape2_def memfile_open_def read_attrs_default)


text \<open>
  C3 (as amended). For every Raster and every behaviour of the libraries: when
  \<^verbatim>\<open>crop\<close>, \<^verbatim>\<open>shift\<close>, \<^verbatim>\<open>set_ndv\<close>, \<^verbatim>\<open>set_dtypes\<close> or \<^verbatim>\<open>_update\<close> itself completes,
  the updated Raster has \<open>matches_disk = False\<close>. \<^verbatim>\<open>reproject\<close> does not go through
  \<^verbatim>\<open>_update\<close>: it returns a new Raster whose flag is unset (\<open>None\<close>), and the receiver
  is not changed.
\<close>

theorem mutations_clear_matches_disk:
  "(crop env self cropGeom mode = Inr r1 \<longrightarrow> matches_disk r1 = Some False)
   \<and> (shift env self xoff yoff = Inr r2 \<longrightarrow> matches_disk r2 = Some False)
   \<and> (snd (set_ndv env self ndv' update_array) = Inr r3 \<longrightarrow> matches_disk r3 = Some False)
   \<and> (snd (set_dtypes env self dtypes' update_array') = Inr r4 \<longrightarrow> matches_disk r4 = Some False)
   \<and> (update env self imgdata metadata vrt_to_driver = Inr r5 \<longrightarrow> matches_disk r5 = Some False)
   \<and> (reproject env self dst_ref dst_crs dst_size dst_bounds dst_res nodata' dtype' resampling' = Inr r6
        \<longrightarrow> matches_disk r6 = None)"
  using crop_via_update [of env self cropGeom mode r1]
    shift_via_update [of env self xoff yoff r2]
    set_ndv_via_update [of env self ndv' update_array r3]
    set_dtypes_via_update [of env self dtypes' update_array' r4]
    reproject_matches_disk [of env self dst_ref dst_crs dst_size dst_bounds dst_res nodata' dtype' resampling' r6]
  by (auto dest: update_matches_disk)

theorem mutations_clear_matches_disk_witness:
  "matches_disk dem = Some True
   \<and> (case crop sim_lib dem (GeomList [478000, 3108020, 478120, 3108140]) ''match_pixel'' of
         Inl e \<Rightarrow> False | Inr r \<Rightarrow> matches_disk r = Some False)
   \<and> (case shift sim_lib dem 30 (-30) of Inl e \<Rightarrow> False | Inr r \<Rightarrow> matches_disk r = Some False)
   \<and> (case snd (set_ndv sim_lib dem (NdvArgNum 0) True) of
         Inl e \<Rightarrow> False | Inr r \<Rightarrow> matches_disk r = Some False)
   \<and> (case snd (set_dtypes sim_lib dem (DtypesOne Int8) True) of
         Inl e \<Rightarrow> False | Inr r \<Rightarrow> matches_disk r = Some False)
   \<and> (case update sim_lib dem None None ''GTiff'' of
         Inl e \<Rightarrow> False | Inr r \<Rightarrow> matches_disk r = Some False)
   \<and> (case reproject sim_lib dem (Some (RefRaster dem)) None None None None None None Nearest of
         Inl e \<Rightarrow> False | Inr r \<Rightarrow> matches_disk r = None)"
proof -
  obtain r1 where r1: "crop sim_lib dem (GeomList [478000, 3108020, 478120, 3108140]) ''match_pixel'' = Inr r1"
    using ex_crop by blast
  obtain r2 where r2: "shift sim_lib dem 30 (-30) = Inr r2"
    using ex_shift by blast
  obtain r3 where r3: "snd (set_ndv sim_lib dem (NdvArgNum 0) True) = Inr r3"
    using ex_set_ndv by blast
  obtain r4 where r4: "snd (set_dtypes sim_lib dem (DtypesOne Int8) True) = Inr r4"
    using ex_set_dtypes by blast
  obtain r5 where r5: "update sim_lib dem None None ''GTiff'' = Inr r5"
    using ex_update by blast
  obtain r6 where r6: "reproject sim_lib dem (Some (RefRaster dem)) None None None None None None Nearest = Inr r6"
    using ex_reproject by blast
  show ?thesis
    using mutations_clear_matches_disk [of sim_lib dem "GeomList [478000, 3108020, 478120, 3108140]"
        "''match_pixel''" r1 30 "-30" r2 "NdvArgNum 0" True r3 "DtypesOne Int8" True r4
        None None "''GTiff''" r5 "Some (RefRaster dem)" None None None None None None Nearest r6]
    by (simp add: r1 r2 r3 r4 r5 r6 dem_fields)
qed

text \<open>
  C3 as stated fails for \<^verbatim>\<open>reproject\<close>: on a Raster opened from disk (flag true) it
  completes, the Raster it returns has the flag unset, not false, and the receiver keeps
  its flag.
\<close>

theorem reproject_leaves_flag_counterexample:
  "matches_disk dem = Some True
   \<and> map_sum id matches_disk
        (reproject sim_lib dem (Some (RefRaster dem)) None None None None None None Nearest) = Inr None"
proof -
  obtain r where r: "reproject sim_lib dem (Some (RefRaster dem)) None None None None None None Nearest = Inr r"
    using ex_reproject by blast
  then show ?thesis
    using reproject_matches_disk [OF r] by (simp add: dem_fields)
qed


subsection \<open>value_at_coords\<close>


lemma flatten_single:
  "flatten \<lparr>arr_dtype = t, arr_data = [rows], arr_mask = (if m then Some [mrows] else None)\<rparr> =
     zip (concat rows) (if m then concat mrows else replicate (length (concat rows)) False)"
  by (simp add: flatten_def Let_def)






lemma window1_all_bands:
  assumes "boundless \<or> in_image d row col" and "ds_count d = 1"
  shows "read_window env d (col, row, 1, 1) fill boundless None m =
    Inr \<lparr>arr_dtype = ds_dtype d, arr_data = [[[fst (read_cell d fill 0 row col)]]],
         arr_mask = (if m then Some [[[snd (read_cell d fill 0 row col)]]] else None)\<rparr>"
  using assms by (auto simp: read_window_def Let_def window_inside_def in_image_def)

lemma window1_entries:
  "flatten \<lparr>arr_dtype = t, arr_data = [[[fst (read_cell d fill k row col)]]],
         arr_mask = (if m then Some [[[snd (read_cell d fill k row col)]]] else None)\<rparr>
   = [window_entry d fill m k (row, col)]"
  by (simp add: flatten_def Let_def window_entry_def)





























subsection \<open>reproject: the argument checks\<close>

lemma reproject_args_fail:
  "reproject_args env dst_ref dst_crs dst_size dst_bounds dst_res = Inl e \<Longrightarrow>
   reproject env self dst_ref dst_crs dst_size dst_bounds dst_res nodata' dtype' resampling' = Inl e"
  by (simp add: reproject_def)

text \<open>
  C4 (as amended). \<^verbatim>\<open>reproject\<close> raises ValueError when both \<^verbatim>\<open>dst_ref\<close> and
  \<^verbatim>\<open>dst_crs\<close> are given and when neither is. With \<^verbatim>\<open>dst_crs\<close> alone, and both
  \<^verbatim>\<open>dst_size\<close> and \<^verbatim>\<open>dst_res\<close> given, it raises: the CRS parser's error if the CRS is
  not understood, the ValueError otherwise; and it gets past the checks exactly when the CRS
  is understood and at most one of \<^verbatim>\<open>dst_size\<close>, \<^verbatim>\<open>dst_res\<close> is given. With
  \<^verbatim>\<open>dst_ref\<close> alone it gets past the checks exactly when the reference can be read,
  whatever \<^verbatim>\<open>dst_size\<close> and \<^verbatim>\<open>dst_res\<close> are: the reference's size and bounds replace
  them.
\<close>

theorem reproject_argument_checks:
  "reproject env self (Some r) (Some c) dst_size dst_bounds dst_res nodata' dtype' resampling' =
     Inl (ValueError ''Either of `dst_ref` or `dst_crs` must be set. Not both.'')
   \<and> reproject env self None None dst_size dst_bounds dst_res nodata' dtype' resampling' =
     Inl (ValueError ''One of `dst_ref` or `dst_crs` must be set.'')
   \<and> reproject env self None (Some c) (Some sz) dst_bounds (Some rs) nodata' dtype' resampling' =
     (case crs_from_user_input env c of
        Inl e \<Rightarrow> Inl e
      | Inr c' \<Rightarrow> Inl (ValueError ''dst_size and dst_res both specified. Specify only one.''))
   \<and> (isl (reproject_args env None (Some c) dst_size dst_bounds dst_res) \<longleftrightarrow>
        isl (crs_from_user_input env c) \<or> (dst_size \<noteq> None \<and> dst_res \<noteq> None))
   \<and> (isl (reproject_args env (Some r) None dst_size dst_bounds dst_res) \<longleftrightarrow> isl (read_ref env r))
   \<and> isl (reproject_args env (Some r) (Some c) dst_size dst_bounds dst_res)
   \<and> isl (reproject_args env None None dst_size dst_bounds dst_res)"
  by (auto simp: reproject_def reproject_args_def split: sum.splits prod.splits option.splits)

text \<open>
  C4 as stated fails: with a reference Raster, \<^verbatim>\<open>dst_size\<close> and \<^verbatim>\<open>dst_res\<close> both
  given do not stop the call; the checks are passed with the reference's size and bounds.
\<close>

theorem reproject_with_reference_counterexample:
  "reproject_args sim_lib (Some (RefRaster dem)) None (Some (10, 10)) None (Some (ResNum 30)) =
     Inr (EPSG 32645, Some (4, 4),
          Some \<lparr>bb_left = 478000, bb_bottom = 3108020, bb_right = 478120, bb_top = 3108140\<rparr>, None)"
  by (simp add: reproject_args_def read_ref_def dem_fields)

text \<open>And a single reference of a type the method does not know is refused.\<close>

lemma reproject_bad_reference:
  "reproject_args env (Some RefOther) None None None None =
     Inl (ValueError ''Type of dst_ref not understood, must be path to file (str), Raster or rasterio data set'')"
  by (simp add: reproject_args_def read_ref_def)


subsection \<open>reproject: the grid for a given resolution\<close>

text \<open>
  The call with a target CRS, explicit bounds and a resolution, followed through the
  argument checks, the size and bounds of the grid, the keyword arguments and the warp.
\<close>

lemma dtype_chosen:
  assumes "dtype' \<noteq> None \<or> dtypes self \<noteq> []"
  shows "\<exists>t. (case dtype' of
              Some t \<Rightarrow> Inr t
            | None \<Rightarrow> (case dtypes self of
                         [] \<Rightarrow> Inl (IndexError ''tuple index out of range'')
                       | t # _ \<Rightarrow> Inr t)) = Inr t"
  using assms by (cases dtype'; cases "dtypes self") simp_all

lemma reproject_args_crs:
  "crs_from_user_input env ci = Inr c \<Longrightarrow>
   reproject_args env None (Some ci) None dst_bounds dst_res = Inr (c, None, dst_bounds, dst_res)"
  by (simp add: reproject_args_def)

lemma reproject_with_resolution:
  assumes crs: "crs_from_user_input env ci = Inr c"
      and dt: "dtype' \<noteq> None \<or> dtypes self \<noteq> []"
  shows
   "(let xres = (case res of ResNum v \<Rightarrow> v | ResTuple vx vy \<Rightarrow> vx);
         yres = (case res of ResNum v \<Rightarrow> v | ResTuple vx vy \<Rightarrow> vy);
         dx = fl (bb_right b - bb_left b);
         dy = fl (bb_bottom b - bb_top b);
         w = \<lceil>fl (dx / xres)\<rceil>;
         h = \<lceil>fl (\<bar>dy\<bar> / yres)\<rceil>;
         px = fl (xres * real_of_int w);
         py = fl (yres * real_of_int h);
         x1 = fl (bb_left b + px);
         y1 = fl (bb_top b - py);
         T = (fl (fl (x1 - bb_left b) / real_of_int w), 0, bb_left b, 0,
              fl (fl (y1 - bb_top b) / real_of_int h), bb_top b);
         kw = (\<lambda>t. \<lparr>src_transform = transform self, src_crs = crs self, dst_crs_kw = c,
                     resampling_kw = rs, dst_nodata = nodata self, dst_resolution = None,
                     dst_transform_kw = t,
                     destination = Some \<lparr>arr_dtype = Float64,
                        arr_data = replicate (count self) (replicate (nat h) (replicate (nat w) 1)),
                        arr_mask = None\<rparr>\<rparr>)
     in reproject env self None (Some ci) None (Some b) (Some res) nodata' dtype' rs =
        (if xres = 0 then Inl ZeroDivisionError
         else if overflows (bb_right b - bb_left b) \<or> overflows (dx / xres)
         then Inl (OverflowError ''cannot convert float infinity to integer'')
         else if yres = 0 \<and> dy = 0 then Inl (ValueError ''cannot convert float NaN to integer'')
         else if yres = 0 \<or> overflows (bb_bottom b - bb_top b) \<or> overflows (\<bar>dy\<bar> / yres)
         then Inl (OverflowError ''cannot convert float infinity to integer'')
         else if w < 0 \<or> h < 0 then Inl (ValueError ''negative dimensions are not allowed'')
         else if w = 0 \<or> h = 0
                 \<or> overflows (xres * real_of_int w) \<or> overflows (bb_left b + px)
                 \<or> overflows (yres * real_of_int h) \<or> overflows (bb_top b - py)
                 \<or> overflows (x1 - bb_left b) \<or> overflows (y1 - bb_top b)
         then (case rio_warp_nonfinite env (data self) (kw NonFinite) of
                 Inl e \<Rightarrow> Inl e
               | Inr (dst_data, t) \<Rightarrow> from_array env dst_data (TAffine t) (CrsGiven c) nodata')
         else (case rio_warp env (data self) (kw (Given T)) of
                 Inl e \<Rightarrow> Inl e
               | Inr (dst_data, t) \<Rightarrow>
                   if T = t then from_array env dst_data (TAffine t) (CrsGiven c) nodata'
                   else Inl (AssertionError ''dst_transform == dst_transformed''))))"
proof -
  obtain t0 where t0: "(case dtype' of
              Some t \<Rightarrow> Inr t
            | None \<Rightarrow> (case dtypes self of
                         [] \<Rightarrow> Inl (IndexError ''tuple index out of range'')
                       | t # _ \<Rightarrow> Inr t)) = Inr t0"
    using dtype_chosen [OF dt] by blast
  define xres where "xres = (case res of ResNum v \<Rightarrow> v | ResTuple vx vy \<Rightarrow> vx)"
  define yres where "yres = (case res of ResNum v \<Rightarrow> v | ResTuple vx vy \<Rightarrow> vy)"
  define w where "w = \<lceil>fl (fl (bb_right b - bb_left b) / xres)\<rceil>"
  define h where "h = \<lceil>fl (\<bar>fl (bb_bottom b - bb_top b)\<bar> / yres)\<rceil>"
  define x1 where "x1 = fl (bb_left b + fl (xres * real_of_int w))"
  define y1 where "y1 = fl (bb_top b - fl (yres * real_of_int h))"
  define nf where "nf \<longleftrightarrow> overflows (xres * real_of_int w)
      \<or> overflows (bb_left b + fl (xres * real_of_int w))
      \<or> overflows (yres * real_of_int h) \<or> overflows (bb_top b - fl (yres * real_of_int h))"
  define T where "T = (fl (fl (x1 - bb_left b) / real_of_int w), 0 :: real, bb_left b, 0 :: real,
              fl (fl (y1 - bb_top b) / real_of_int h), bb_top b)"
  define ones where "ones = \<lparr>arr_dtype = Float64,
       arr_data = replicate (count self) (replicate (nat h) (replicate (nat w) (1 :: real))),
       arr_mask = None\<rparr>"
  define kw where "kw = (\<lambda>t. \<lparr>src_transform = transform self, src_crs = crs self, dst_crs_kw = c,
                     resampling_kw = rs, dst_nodata = nodata self, dst_resolution = None,
                     dst_transform_kw = t, destination = Some ones\<rparr>)"
  have grid: "grid_from_res None (Some b) (Some res) =
     (if xres = 0 then Inl ZeroDivisionError
      else if overflows (bb_right b - bb_left b) \<or> overflows (fl (bb_right b - bb_left b) / xres)
      then Inl (OverflowError ''cannot convert float infinity to integer'')
      else if yres = 0 \<and> fl (bb_bottom b - bb_top b) = 0
      then Inl (ValueError ''cannot convert float NaN to integer'')
      else if yres = 0 \<or> overflows (bb_bottom b - bb_top b)
              \<or> overflows (\<bar>fl (bb_bottom b - bb_top b)\<bar> / yres)
      then Inl (OverflowError ''cannot convert float infinity to integer'')
      else Inr (Some (w, h),
                (if nf then NpNonFinite
                 else NpBounds \<lparr>bb_left = bb_left b, bb_bottom = y1, bb_right = x1,
                                bb_top = bb_top b\<rparr>), None))"
    unfolding grid_from_res_def Let_def xres_def yres_def w_def h_def x1_def y1_def nf_def
    by (simp only: option.case)
  have kwargs: "reproject_kwargs self c None (Some b) (Some res) dtype' rs =
     (if xres = 0 then Inl ZeroDivisionError
      else if overflows (bb_right b - bb_left b) \<or> overflows (fl (bb_right b - bb_left b) / xres)
      then Inl (OverflowError ''cannot convert float infinity to integer'')
      else if yres = 0 \<and> fl (bb_bottom b - bb_top b) = 0
      then Inl (ValueError ''cannot convert float NaN to integer'')
      else if yres = 0 \<or> overflows (bb_bottom b - bb_top b)
              \<or> overflows (\<bar>fl (bb_bottom b - bb_top b)\<bar> / yres)
      then Inl (OverflowError ''cannot convert float infinity to integer'')
      else if w < 0 \<or> h < 0 then Inl (ValueError ''negative dimensions are not allowed'')
      else if w = 0 \<or> h = 0 \<or> nf \<or> overflows (x1 - bb_left b) \<or> overflows (y1 - bb_top b)
      then Inr (kw NonFinite, NonFinite)
      else Inr (kw (Given T), Given T))"
    unfolding reproject_kwargs_def t0 grid from_bounds_def np_full_def Let_def kw_def ones_def T_def
    by simp
  have main: "reproject env self None (Some ci) None (Some b) (Some res) nodata' dtype' rs =
     (if xres = 0 then Inl ZeroDivisionError
      else if overflows (bb_right b - bb_left b) \<or> overflows (fl (bb_right b - bb_left b) / xres)
      then Inl (OverflowError ''cannot convert float infinity to integer'')
      else if yres = 0 \<and> fl (bb_bottom b - bb_top b) = 0
      then Inl (ValueError ''cannot convert float NaN to integer'')
      else if yres = 0 \<or> overflows (bb_bottom b - bb_top b)
              \<or> overflows (\<bar>fl (bb_bottom b - bb_top b)\<bar> / yres)
      then Inl (OverflowError ''cannot convert float infinity to integer'')
      else if w < 0 \<or> h < 0 then Inl (ValueError ''negative dimensions are not allowed'')
      else if w = 0 \<or> h = 0
              \<or> overflows (xres * real_of_int w)
              \<or> overflows (bb_left b + fl (xres * real_of_int w))
              \<or> overflows (yres * real_of_int h) \<or> overflows (bb_top b - fl (yres * real_of_int h))
              \<or> overflows (x1 - bb_left b) \<or> overflows (y1 - bb_top b)
      then (case rio_warp_nonfinite env (data self) (kw NonFinite) of
              Inl e \<Rightarrow> Inl e
            | Inr (dst_data, t) \<Rightarrow> from_array env dst_data (TAffine t) (CrsGiven c) nodata')
      else (case rio_warp env (data self) (kw (Given T)) of
              Inl e \<Rightarrow> Inl e
            | Inr (dst_data, t) \<Rightarrow>
                if T = t then from_array env dst_data (TAffine t) (CrsGiven c) nodata'
                else Inl (AssertionError ''dst_transform == dst_transformed'')))"
    unfolding reproject_def reproject_args_crs [OF crs]
    by (simp add: kwargs nf_def)
  show ?thesis
    unfolding Let_def
    using main [unfolded kw_def ones_def T_def x1_def y1_def w_def h_def xres_def yres_def] .
qed

lemma ceiling_covers:
  assumes "0 < (r :: real)"
  shows "a \<le> r * real_of_int \<lceil>a / r\<rceil>"
proof -
  have "a \<le> real_of_int \<lceil>a / r\<rceil> * r"
    using pos_divide_le_eq [OF assms, of a "real_of_int \<lceil>a / r\<rceil>"]
      le_of_int_ceiling [of "a / r"] by blast
  then show ?thesis by (simp add: mult.commute)
qed

lemma exact_grid:
  fixes b :: bounding_box
  defines "L \<equiv> bb_left b" and "R \<equiv> bb_right b" and "B \<equiv> bb_bottom b" and "U \<equiv> bb_top b"
  assumes x0: "xres \<noteq> 0" and y0: "yres \<noteq> 0"
    and rx: "representable xres" and ry: "representable yres"
    and r1: "representable (R - L)" and r2: "representable ((R - L) / xres)"
    and r3: "representable (xres * real_of_int \<lceil>(R - L) / xres\<rceil>)"
    and r4: "representable (L + xres * real_of_int \<lceil>(R - L) / xres\<rceil>)"
    and s1: "representable (B - U)" and s2: "representable (\<bar>B - U\<bar> / yres)"
    and s3: "representable (yres * real_of_int \<lceil>\<bar>B - U\<bar> / yres\<rceil>)"
    and s4: "representable (U - yres * real_of_int \<lceil>\<bar>B - U\<bar> / yres\<rceil>)"
    and res: "res = ResNum xres \<and> yres = xres \<or> res = ResTuple xres yres"
  shows "grid_from_res None (Some b) (Some res) =
           Inr (Some (\<lceil>(R - L) / xres\<rceil>, \<lceil>\<bar>B - U\<bar> / yres\<rceil>),
                NpBounds \<lparr>bb_left = L, bb_bottom = U - yres * real_of_int \<lceil>\<bar>B - U\<bar> / yres\<rceil>,
                          bb_right = L + xres * real_of_int \<lceil>(R - L) / xres\<rceil>, bb_top = U\<rparr>,
                None)"
proof -
  note fls = rx [unfolded representable_def, THEN conjunct1]
    ry [unfolded representable_def, THEN conjunct1]
    r1 [unfolded representable_def, THEN conjunct1] r2 [unfolded representable_def, THEN conjunct1]
    r3 [unfolded representable_def, THEN conjunct1] r4 [unfolded representable_def, THEN conjunct1]
    s1 [unfolded representable_def, THEN conjunct1] s2 [unfolded representable_def, THEN conjunct1]
    s3 [unfolded representable_def, THEN conjunct1] s4 [unfolded representable_def, THEN conjunct1]
  note nov = r1 [THEN representable_not_overflows] r2 [THEN representable_not_overflows]
    r3 [THEN representable_not_overflows] r4 [THEN representable_not_overflows]
    s1 [THEN representable_not_overflows] s2 [THEN representable_not_overflows]
    s3 [THEN representable_not_overflows] s4 [THEN representable_not_overflows]
  have xr: "(case res of ResNum v \<Rightarrow> v | ResTuple vx vy \<Rightarrow> vx) = xres"
    and yr: "(case res of ResNum v \<Rightarrow> v | ResTuple vx vy \<Rightarrow> vy) = yres"
    using res by auto
  show ?thesis
    unfolding grid_from_res_def Let_def
    using fls nov x0 y0 unfolding L_def R_def B_def U_def
    by (simp add: xr yr)
qed

lemma exact_reproject:
  fixes b :: bounding_box
  defines "L \<equiv> bb_left b" and "R \<equiv> bb_right b" and "B \<equiv> bb_bottom b" and "U \<equiv> bb_top b"
  assumes crs: "crs_from_user_input env ci = Inr c"
    and dt: "dtype' \<noteq> None \<or> dtypes self \<noteq> []"
    and rx: "representable xres" and ry: "representable yres"
    and r1: "representable (R - L)" and r2: "representable ((R - L) / xres)"
    and r3: "representable (xres * real_of_int \<lceil>(R - L) / xres\<rceil>)"
    and r4: "representable (L + xres * real_of_int \<lceil>(R - L) / xres\<rceil>)"
    and s1: "representable (B - U)" and s2: "representable (\<bar>B - U\<bar> / yres)"
    and s3: "representable (yres * real_of_int \<lceil>\<bar>B - U\<bar> / yres\<rceil>)"
    and s4: "representable (U - yres * real_of_int \<lceil>\<bar>B - U\<bar> / yres\<rceil>)"
    and res: "res = ResNum xres \<and> yres = xres \<or> res = ResTuple xres yres"
    and pos: "0 < \<lceil>(R - L) / xres\<rceil>" "0 < \<lceil>\<bar>B - U\<bar> / yres\<rceil>"
  shows "reproject env self None (Some ci) None (Some b) (Some res) nodata' dtype' rs =
     (case rio_warp env (data self)
             \<lparr>src_transform = transform self, src_crs = crs self, dst_crs_kw = c,
              resampling_kw = rs, dst_nodata = nodata self, dst_resolution = None,
              dst_transform_kw = Given (xres, 0, L, 0, - yres, U),
              destination = Some \<lparr>arr_dtype = Float64,
                 arr_data = replicate (count self) (replicate (nat \<lceil>\<bar>B - U\<bar> / yres\<rceil>)
                              (replicate (nat \<lceil>(R - L) / xres\<rceil>) 1)),
                 arr_mask = None\<rparr>\<rparr> of
        Inl e \<Rightarrow> Inl e
      | Inr (dst_data, t) \<Rightarrow>
          if (xres, 0, L, 0, - yres, U) = t
          then from_array env dst_data (TAffine t) (CrsGiven c) nodata'
          else Inl (AssertionError ''dst_transform == dst_transformed''))"
proof -
  define W where "W = \<lceil>(R - L) / xres\<rceil>"
  define H where "H = \<lceil>\<bar>B - U\<bar> / yres\<rceil>"
  have Wp: "0 < W" using pos(1) unfolding W_def .
  have Hp: "0 < H" using pos(2) unfolding H_def .
  have W0: "real_of_int W \<noteq> 0" "0 < W" using Wp by simp_all
  have H0: "real_of_int H \<noteq> 0" "0 < H" using Hp by simp_all
  have x0: "xres \<noteq> 0" using pos(1) by auto
  have y0: "yres \<noteq> 0" using pos(2) by auto
  note reps = r1 r2 r3 [folded W_def] r4 [folded W_def] s1 s2 s3 [folded H_def] s4 [folded H_def]
  have fls: "fl xres = xres" "fl yres = yres" "fl (R - L) = R - L"
    "fl ((R - L) / xres) = (R - L) / xres" "fl (xres * real_of_int W) = xres * real_of_int W"
    "fl (L + xres * real_of_int W) = L + xres * real_of_int W"
    "fl (B - U) = B - U" "fl (\<bar>B - U\<bar> / yres) = \<bar>B - U\<bar> / yres"
    "fl (yres * real_of_int H) = yres * real_of_int H"
    "fl (U - yres * real_of_int H) = U - yres * real_of_int H"
    using rx ry reps by (simp_all add: representable_def)
  have nov: "\<not> overflows (R - L)" "\<not> overflows ((R - L) / xres)"
    "\<not> overflows (xres * real_of_int W)" "\<not> overflows (L + xres * real_of_int W)"
    "\<not> overflows (B - U)" "\<not> overflows (\<bar>B - U\<bar> / yres)"
    "\<not> overflows (yres * real_of_int H)" "\<not> overflows (U - yres * real_of_int H)"
    using reps by (simp_all add: representable_not_overflows)
  have xr: "(case res of ResNum v \<Rightarrow> v | ResTuple vx vy \<Rightarrow> vx) = xres"
    and yr: "(case res of ResNum v \<Rightarrow> v | ResTuple vx vy \<Rightarrow> vy) = yres"
    using res by auto
  have dx: "L + xres * real_of_int W - L = xres * real_of_int W" by simp
  have dy: "U - yres * real_of_int H - U = - (yres * real_of_int H)" by simp
  have qx: "xres * real_of_int W / real_of_int W = xres" using W0 by simp
  have qy: "- (yres * real_of_int H) / real_of_int H = - yres" using H0 by simp
  note chain = reproject_with_resolution [where res = res and b = b and rs = rs
      and nodata' = nodata', OF crs dt,
      unfolded Let_def xr yr, folded L_def R_def B_def U_def,
      unfolded fls(3,4,7,8), folded W_def H_def,
      unfolded fls dx dy fl_minus overflows_minus, unfolded fls qx qy,
      unfolded fl_minus fls]
  show ?thesis
    unfolding W_def [symmetric] H_def [symmetric]
    using chain nov x0 y0 W0 H0
    by (simp add: fl_minus fls(1,2))
qed

lemma res_cases:
  "res = ResNum (case res of ResNum v \<Rightarrow> v | ResTuple vx vy \<Rightarrow> vx)
     \<and> (case res of ResNum v \<Rightarrow> v | ResTuple vx vy \<Rightarrow> vy) =
       (case res of ResNum v \<Rightarrow> v | ResTuple vx vy \<Rightarrow> vx)
   \<or> res = ResTuple (case res of ResNum v \<Rightarrow> v | ResTuple vx vy \<Rightarrow> vx)
                    (case res of ResNum v \<Rightarrow> v | ResTuple vx vy \<Rightarrow> vy)"
  by (cases res) simp_all

lemma exact_outward:
  fixes L R B U :: real
  shows "0 < xres \<Longrightarrow> R \<le> L + xres * real_of_int \<lceil>(R - L) / xres\<rceil>"
    and "0 < yres \<Longrightarrow> U - yres * real_of_int \<lceil>\<bar>B - U\<bar> / yres\<rceil> \<le> B"
proof -
  show "0 < xres \<Longrightarrow> R \<le> L + xres * real_of_int \<lceil>(R - L) / xres\<rceil>"
    using ceiling_covers [of xres "R - L"] by linarith
  show "0 < yres \<Longrightarrow> U - yres * real_of_int \<lceil>\<bar>B - U\<bar> / yres\<rceil> \<le> B"
    using ceiling_covers [of yres "\<bar>B - U\<bar>"] by linarith
qed

lemma representable_five_halves: "representable (5 / 2)"
  using representable_dyadic [of 5 1] by simp

text \<open>
  C5 (as amended). \<^verbatim>\<open>reproject\<close> called with a target CRS that is understood, explicit
  \<^verbatim>\<open>dst_bounds\<close> and a resolution \<^verbatim>\<open>dst_res\<close> (a number, or a pair \<open>(xres, yres)\<close>),
  on any Raster that has a data type and for every behaviour of the libraries.

  First part, all inputs: the width is the ceiling of \<open>(right - left) / xres\<close> and the
  height the ceiling of \<open>\<bar>bottom - top\<bar> / yres\<close>, each difference and quotient as
  evaluated in double precision. The right bound becomes \<open>left + xres * width\<close> and the
  bottom \<open>top - yres * height\<close>, again in double precision. When width and height are
  positive and nothing overflows, the warp is called with an array of ones of shape
  (count, height, width) and with the transform that \<^verbatim>\<open>from_bounds\<close> makes of the adjusted
  bounds and this size. A zero \<open>xres\<close> raises ZeroDivisionError; a zero \<open>yres\<close> or a
  quotient that overflows makes \<^verbatim>\<open>int\<close> raise OverflowError or ValueError; a negative
  width or height makes \<^verbatim>\<open>np.ones\<close> raise ValueError; with a zero width or height, or an
  overflow in the adjusted bounds, the transform has an infinite or nan entry.

  Second part, when none of these float operations rounds: width and height are the exact
  ceilings, the adjusted bounds are exactly \<open>left + xres * width\<close> and
  \<open>top - yres * height\<close>, for a positive resolution they lie on or outside the requested
  right and bottom, and for a positive width and height the warp is given the transform
  \<open>(xres, 0, left, 0, - yres, top)\<close>: every output pixel has exactly the requested size.
\<close>

theorem reproject_grid_from_resolution:
  assumes crs: "crs_from_user_input env ci = Inr c"
      and dt: "dtype' \<noteq> None \<or> dtypes self \<noteq> []"
  shows
   "(let xres = (case res of ResNum v \<Rightarrow> v | ResTuple vx vy \<Rightarrow> vx);
         yres = (case res of ResNum v \<Rightarrow> v | ResTuple vx vy \<Rightarrow> vy);
         dx = fl (bb_right b - bb_left b);
         dy = fl (bb_bottom b - bb_top b);
         w = \<lceil>fl (dx / xres)\<rceil>;
         h = \<lceil>fl (\<bar>dy\<bar> / yres)\<rceil>;
         px = fl (xres * real_of_int w);
         py = fl (yres * real_of_int h);
         x1 = fl (bb_left b + px);
         y1 = fl (bb_top b - py);
         T = (fl (fl (x1 - bb_left b) / real_of_int w), 0, bb_left b, 0,
              fl (fl (y1 - bb_top b) / real_of_int h), bb_top b);
         kw = (\<lambda>t. \<lparr>src_transform = transform self, src_crs = crs self, dst_crs_kw = c,
                     resampling_kw = rs, dst_nodata = nodata self, dst_resolution = None,
                     dst_transform_kw = t,
                     destination = Some \<lparr>arr_dtype = Float64,
                        arr_data = replicate (count self) (replicate (nat h) (replicate (nat w) 1)),
                        arr_mask = None\<rparr>\<rparr>)
     in reproject env self None (Some ci) None (Some b) (Some res) nodata' dtype' rs =
        (if xres = 0 then Inl ZeroDivisionError
         else if overflows (bb_right b - bb_left b) \<or> overflows (dx / xres)
         then Inl (OverflowError ''cannot convert float infinity to integer'')
         else if yres = 0 \<and> dy = 0 then Inl (ValueError ''cannot convert float NaN to integer'')
         else if yres = 0 \<or> overflows (bb_bottom b - bb_top b) \<or> overflows (\<bar>dy\<bar> / yres)
         then Inl (OverflowError ''cannot convert float infinity to integer'')
         else if w < 0 \<or> h < 0 then Inl (ValueError ''negative dimensions are not allowed'')
         else if w = 0 \<or> h = 0
                 \<or> overflows (xres * real_of_int w) \<or> overflows (bb_left b + px)
                 \<or> overflows (yres * real_of_int h) \<or> overflows (bb_top b - py)
                 \<or> overflows (x1 - bb_left b) \<or> overflows (y1 - bb_top b)
         then (case rio_warp_nonfinite env (data self) (kw NonFinite) of
                 Inl e \<Rightarrow> Inl e
               | Inr (dst_data, t) \<Rightarrow> from_array env dst_data (TAffine t) (CrsGiven c) nodata')
         else (case rio_warp env (data self) (kw (Given T)) of
                 Inl e \<Rightarrow> Inl e
               | Inr (dst_data, t) \<Rightarrow>
                   if T = t then from_array env dst_data (TAffine t) (CrsGiven c) nodata'
                   else Inl (AssertionError ''dst_transform == dst_transformed''))))
    \<and> (let xres = (case res of ResNum v \<Rightarrow> v | ResTuple vx vy \<Rightarrow> vx);
            yres = (case res of ResNum v \<Rightarrow> v | ResTuple vx vy \<Rightarrow> vy);
            W = \<lceil>(bb_right b - bb_left b) / xres\<rceil>;
            H = \<lceil>\<bar>bb_bottom b - bb_top b\<bar> / yres\<rceil>;
            x1 = bb_left b + xres * real_of_int W;
            y1 = bb_top b - yres * real_of_int H
        in xres \<noteq> 0 \<and> yres \<noteq> 0 \<and> representable xres \<and> representable yres
           \<and> representable (bb_right b - bb_left b)
           \<and> representable ((bb_right b - bb_left b) / xres)
           \<and> representable (xres * real_of_int W) \<and> representable x1
           \<and> representable (bb_bottom b - bb_top b)
           \<and> representable (\<bar>bb_bottom b - bb_top b\<bar> / yres)
           \<and> representable (yres * real_of_int H) \<and> representable y1
           \<longrightarrow>
             grid_from_res None (Some b) (Some res) =
               Inr (Some (W, H),
                    NpBounds \<lparr>bb_left = bb_left b, bb_bottom = y1, bb_right = x1,
                              bb_top = bb_top b\<rparr>, None)
             \<and> (0 < xres \<longrightarrow> bb_right b \<le> x1)
             \<and> (0 < yres \<longrightarrow> y1 \<le> bb_bottom b)
             \<and> (0 < W \<and> 0 < H \<longrightarrow>
                  reproject env self None (Some ci) None (Some b) (Some res) nodata' dtype' rs =
                    (case rio_warp env (data self)
                            \<lparr>src_transform = transform self, src_crs = crs self, dst_crs_kw = c,
                             resampling_kw = rs, dst_nodata = nodata self, dst_resolution = None,
                             dst_transform_kw = Given (xres, 0, bb_left b, 0, - yres, bb_top b),
                             destination = Some \<lparr>arr_dtype = Float64,
                                arr_data = replicate (count self)
                                  (replicate (nat H) (replicate (nat W) 1)),
                                arr_mask = None\<rparr>\<rparr> of
                       Inl e \<Rightarrow> Inl e
                     | Inr (dst_data, t) \<Rightarrow>
                         if (xres, 0, bb_left b, 0, - yres, bb_top b) = t
                         then from_array env dst_data (TAffine t) (CrsGiven c) nodata'
                         else Inl (AssertionError ''dst_transform == dst_transformed''))))"
proof (rule conjI)
  show "let xres = (case res of ResNum v \<Rightarrow> v | ResTuple vx vy \<Rightarrow> vx);
         yres = (case res of ResNum v \<Rightarrow> v | ResTuple vx vy \<Rightarrow> vy);
         dx = fl (bb_right b - bb_left b);
         dy = fl (bb_bottom b - bb_top b);
         w = \<lceil>fl (dx / xres)\<rceil>;
         h = \<lceil>fl (\<bar>dy\<bar> / yres)\<rceil>;
         px = fl (xres * real_of_int w);
         py = fl (yres * real_of_int h);
         x1 = fl (bb_left b + px);
         y1 = fl (bb_top b - py);
         T = (fl (fl (x1 - bb_left b) / real_of_int w), 0, bb_left b, 0,
              fl (fl (y1 - bb_top b) / real_of_int h), bb_top b);
         kw = (\<lambda>t. \<lparr>src_transform = transform self, src_crs = crs self, dst_crs_kw = c,
                     resampling_kw = rs, dst_nodata = nodata self, dst_resolution = None,
                     dst_transform_kw = t,
                     destination = Some \<lparr>arr_dtype = Float64,
                        arr_data = replicate (count self) (replicate (nat h) (replicate (nat w) 1)),
                        arr_mask = None\<rparr>\<rparr>)
     in reproject env self None (Some ci) None (Some b) (Some res) nodata' dtype' rs =
        (if xres = 0 then Inl ZeroDivisionError
         else if overflows (bb_right b - bb_left b) \<or> overflows (dx / xres)
         then Inl (OverflowError ''cannot convert float infinity to integer'')
         else if yres = 0 \<and> dy = 0 then Inl (ValueError ''cannot convert float NaN to integer'')
         else if yres = 0 \<or> overflows (bb_bottom b - bb_top b) \<or> overflows (\<bar>dy\<bar> / yres)
         then Inl (OverflowError ''cannot convert float infinity to integer'')
         else if w < 0 \<or> h < 0 then Inl (ValueError ''negative dimensions are not allowed'')
         else if w = 0 \<or> h = 0
                 \<or> overflows (xres * real_of_int w) \<or> overflows (bb_left b + px)
                 \<or> overflows (yres * real_of_int h) \<or> overflows (bb_top b - py)
                 \<or> overflows (x1 - bb_left b) \<or> overflows (y1 - bb_top b)
         then (case rio_warp_nonfinite env (data self) (kw NonFinite) of
                 Inl e \<Rightarrow> Inl e
               | Inr (dst_data, t) \<Rightarrow> from_array env dst_data (TAffine t) (CrsGiven c) nodata')
         else (case rio_warp env (data self) (kw (Given T)) of
                 Inl e \<Rightarrow> Inl e
               | Inr (dst_data, t) \<Rightarrow>
                   if T = t then from_array env dst_data (TAffine t) (CrsGiven c) nodata'
                   else Inl (AssertionError ''dst_transform == dst_transformed'')))"
    by (rule reproject_with_resolution [OF crs dt])
next
  define xres where "xres = (case res of ResNum v \<Rightarrow> v | ResTuple vx vy \<Rightarrow> vx)"
  define yres where "yres = (case res of ResNum v \<Rightarrow> v | ResTuple vx vy \<Rightarrow> vy)"
  have res: "res = ResNum xres \<and> yres = xres \<or> res = ResTuple xres yres"
    unfolding xres_def yres_def by (rule res_cases)
  show "let xres = (case res of ResNum v \<Rightarrow> v | ResTuple vx vy \<Rightarrow> vx);
            yres = (case res of ResNum v \<Rightarrow> v | ResTuple vx vy \<Rightarrow> vy);
            W = \<lceil>(bb_right b - bb_left b) / xres\<rceil>;
            H = \<lceil>\<bar>bb_bottom b - bb_top b\<bar> / yres\<rceil>;
            x1 = bb_left b + xres * real_of_int W;
            y1 = bb_top b - yres * real_of_int H
        in xres \<noteq> 0 \<and> yres \<noteq> 0 \<and> representable xres \<and> representable yres
           \<and> representable (bb_right b - bb_left b)
           \<and> representable ((bb_right b - bb_left b) / xres)
           \<and> representable (xres * real_of_int W) \<and> representable x1
           \<and> representable (bb_bottom b - bb_top b)
           \<and> representable (\<bar>bb_bottom b - bb_top b\<bar> / yres)
           \<and> representable (yres * real_of_int H) \<and> representable y1
           \<longrightarrow>
             grid_from_res None (Some b) (Some res) =
               Inr (Some (W, H),
                    NpBounds \<lparr>bb_left = bb_left b, bb_bottom = y1, bb_right = x1,
                              bb_top = bb_top b\<rparr>, None)
             \<and> (0 < xres \<longrightarrow> bb_right b \<le> x1)
             \<and> (0 < yres \<longrightarrow> y1 \<le> bb_bottom b)
             \<and> (0 < W \<and> 0 < H \<longrightarrow>
                  reproject env self None (Some ci) None (Some b) (Some res) nodata' dtype' rs =
                    (case rio_warp env (data self)
                            \<lparr>src_transform = transform self, src_crs = crs self, dst_crs_kw = c,
                             resampling_kw = rs, dst_nodata = nodata self, dst_resolution = None,
                             dst_transform_kw = Given (xres, 0, bb_left b, 0, - yres, bb_top b),
                             destination = Some \<lparr>arr_dtype = Float64,
                                arr_data = replicate (count self)
                                  (replicate (nat H) (replicate (nat W) 1)),
                                arr_mask = None\<rparr>\<rparr> of
                       Inl e \<Rightarrow> Inl e
                     | Inr (dst_data, t) \<Rightarrow>
                         if (xres, 0, bb_left b, 0, - yres, bb_top b) = t
                         then from_array env dst_data (TAffine t) (CrsGiven c) nodata'
                         else Inl (AssertionError ''dst_transform == dst_transformed'')))"
    unfolding Let_def xres_def [symmetric] yres_def [symmetric]
  proof (intro impI conjI; elim conjE)
    assume h: "xres \<noteq> 0" "yres \<noteq> 0" "representable xres" "representable yres"
      "representable (bb_right b - bb_left b)"
      "representable ((bb_right b - bb_left b) / xres)"
      "representable (xres * real_of_int \<lceil>(bb_right b - bb_left b) / xres\<rceil>)"
      "representable (bb_left b + xres * real_of_int \<lceil>(bb_right b - bb_left b) / xres\<rceil>)"
      "representable (bb_bottom b - bb_top b)"
      "representable (\<bar>bb_bottom b - bb_top b\<bar> / yres)"
      "representable (yres * real_of_int \<lceil>\<bar>bb_bottom b - bb_top b\<bar> / yres\<rceil>)"
      "representable (bb_top b - yres * real_of_int \<lceil>\<bar>bb_bottom b - bb_top b\<bar> / yres\<rceil>)"
    show "grid_from_res None (Some b) (Some res) =
       Inr (Some (\<lceil>(bb_right b - bb_left b) / xres\<rceil>, \<lceil>\<bar>bb_bottom b - bb_top b\<bar> / yres\<rceil>),
            NpBounds \<lparr>bb_left = bb_left b,
               bb_bottom = bb_top b - yres * real_of_int \<lceil>\<bar>bb_bottom b - bb_top b\<bar> / yres\<rceil>,
               bb_right = bb_left b + xres * real_of_int \<lceil>(bb_right b - bb_left b) / xres\<rceil>,
               bb_top = bb_top b\<rparr>, None)"
      by (rule exact_grid [OF h res])
    show "bb_right b \<le> bb_left b + xres * real_of_int \<lceil>(bb_right b - bb_left b) / xres\<rceil>"
      if "0 < xres" using that by (rule exact_outward(1))
    show "bb_top b - yres * real_of_int \<lceil>\<bar>bb_bottom b - bb_top b\<bar> / yres\<rceil> \<le> bb_bottom b"
      if "0 < yres" using that by (rule exact_outward(2))
    show "reproject env self None (Some ci) None (Some b) (Some res) nodata' dtype' rs =
        (case rio_warp env (data self)
                \<lparr>src_transform = transform self, src_crs = crs self, dst_crs_kw = c,
                 resampling_kw = rs, dst_nodata = nodata self, dst_resolution = None,
                 dst_transform_kw = Given (xres, 0, bb_left b, 0, - yres, bb_top b),
                 destination = Some \<lparr>arr_dtype = Float64,
                    arr_data = replicate (count self)
                      (replicate (nat \<lceil>\<bar>bb_bottom b - bb_top b\<bar> / yres\<rceil>)
                         (replicate (nat \<lceil>(bb_right b - bb_left b) / xres\<rceil>) 1)),
                    arr_mask = None\<rparr>\<rparr> of
           Inl e \<Rightarrow> Inl e
         | Inr (dst_data, t) \<Rightarrow>
             if (xres, 0, bb_left b, 0, - yres, bb_top b) = t
             then from_array env dst_data (TAffine t) (CrsGiven c) nodata'
             else Inl (AssertionError ''dst_transform == dst_transformed''))"
      if "0 < \<lceil>(bb_right b - bb_left b) / xres\<rceil>" "0 < \<lceil>\<bar>bb_bottom b - bb_top b\<bar> / yres\<rceil>"
      by (rule exact_reproject [OF crs dt h(3-12) res that])
  qed
qed

text \<open>
  An instance: the single-band example file, bounds of 125 by 125 and a resolution of 50.
  No operation rounds; the grid is 3 by 3, the bounds grow to 150 by 150 and the pixels are
  50 by 50.
\<close>

theorem reproject_grid_from_resolution_witness:
  "grid_from_res None
      (Some \<lparr>bb_left = 478000, bb_bottom = 3108015, bb_right = 478125, bb_top = 3108140\<rparr>)
      (Some (ResNum 50)) =
     Inr (Some (3, 3),
          NpBounds \<lparr>bb_left = 478000, bb_bottom = 3107990, bb_right = 478150, bb_top = 3108140\<rparr>,
          None)
   \<and> map_sum id width
        (reproject sim_lib dem None (Some (CrsEPSG 32645)) None
           (Some \<lparr>bb_left = 478000, bb_bottom = 3108015, bb_right = 478125, bb_top = 3108140\<rparr>)
           (Some (ResNum 50)) None None Nearest) = Inr 3
   \<and> map_sum id height
        (reproject sim_lib dem None (Some (CrsEPSG 32645)) None
           (Some \<lparr>bb_left = 478000, bb_bottom = 3108015, bb_right = 478125, bb_top = 3108140\<rparr>)
           (Some (ResNum 50)) None None Nearest) = Inr 3
   \<and> map_sum id transform
        (reproject sim_lib dem None (Some (CrsEPSG 32645)) None
           (Some \<lparr>bb_left = 478000, bb_bottom = 3108015, bb_right = 478125, bb_top = 3108140\<rparr>)
           (Some (ResNum 50)) None None Nearest) = Inr (50, 0, 478000, 0, - 50, 3108140)"
proof -
  have crs: "crs_from_user_input sim_lib (CrsEPSG 32645) = Inr (EPSG 32645)"
    by (simp add: sim_lib_def)
  have dt: "(None :: dtype option) \<noteq> None \<or> dtypes dem \<noteq> []"
    by (simp add: dem_fields)
  have W: "\<lceil>(5 / 2 :: real)\<rceil> = 3" by (rule ceiling_unique) simp_all
  note th = reproject_grid_from_resolution [where env = sim_lib and ci = "CrsEPSG 32645"
      and c = "EPSG 32645" and dtype' = None and self = dem and res = "ResNum 50"
      and b = "\<lparr>bb_left = 478000, bb_bottom = 3108015, bb_right = 478125, bb_top = 3108140\<rparr>"
      and rs = Nearest and nodata' = None, OF crs dt, THEN conjunct2, unfolded Let_def]
  show ?thesis
    using th
    by (simp add: W representable_numeral representable_minus representable_five_halves
        sim_lib_def from_array_def sim_create_def sim_dataset_def raster_init_def fresh_def
        load_def dem_fields shape0_def shape1_def shape2_def memfile_open_def read_attrs_default
        case_replicate Let_def)
qed

text \<open>
  In double precision the width can fall short of the exact ceiling and the adjusted bound
  can lie inside the requested one. With \<open>right - left\<close> the double nearest to 384.3 and
  \<open>xres\<close> the double nearest to 0.7, the quotient rounds to 549 and the product
  \<open>xres * 549\<close> rounds to 384.29999999999995.
\<close>

lemma quotient_rounds_to_549:
  "fl ((6760677096869069 / 2 ^ 44) / (3152519739159347 / 2 ^ 52)) = 549"
  using fl_eval [of "(6760677096869069 / 2 ^ 44) / (3152519739159347 / 2 ^ 52)" 43]
  by (simp add: round_half_even_def)

lemma product_rounds_down:
  "fl ((3152519739159347 / 2 ^ 52) * 549) = 6760677096869068 / 2 ^ 44"
  using fl_eval [of "(3152519739159347 / 2 ^ 52) * 549" 44]
  by (simp add: round_half_even_def)

lemma right_bound_is_double: "representable (6760677096869069 / 2 ^ 44)"
  using representable_dyadic [of 6760677096869069 44] by simp

lemma adjusted_bound_is_double: "representable (6760677096869068 / 2 ^ 44)"
  using representable_dyadic [of 6760677096869068 44] by simp

lemma grid_with_rounding:
  assumes R: "representable R" and q: "fl (R / X) = 549" and p: "fl (X * 549) = D"
    and D: "representable D" and X: "X \<noteq> 0"
  shows "grid_from_res None (Some \<lparr>bb_left = 0, bb_bottom = 0, bb_right = R, bb_top = 1\<rparr>)
           (Some (ResTuple X 1)) =
         Inr (Some (549, 1),
              NpBounds \<lparr>bb_left = 0, bb_bottom = 0, bb_right = D, bb_top = 1\<rparr>, None)"
    and "map_sum id width
           (reproject sim_lib dem None (Some (CrsEPSG 32645)) None
              (Some \<lparr>bb_left = 0, bb_bottom = 0, bb_right = R, bb_top = 1\<rparr>)
              (Some (ResTuple X 1)) None None Nearest) = Inr 549"
proof -
  have fls: "fl R = R" "fl D = D" "\<bar>R\<bar> < 2 ^ 1024" "\<bar>D\<bar> < 2 ^ 1024"
    using R D by (simp_all add: representable_def)
  have ov: "\<not> overflows R" "\<not> overflows D" "\<not> overflows (R / X)" "\<not> overflows (X * 549)"
    "\<not> overflows 1" "\<not> overflows 0" "\<not> overflows (- 1)"
    using fls by (simp_all add: overflows_def q p fl_one fl_zero fl_minus)
  show "grid_from_res None (Some \<lparr>bb_left = 0, bb_bottom = 0, bb_right = R, bb_top = 1\<rparr>)
           (Some (ResTuple X 1)) =
         Inr (Some (549, 1),
              NpBounds \<lparr>bb_left = 0, bb_bottom = 0, bb_right = D, bb_top = 1\<rparr>, None)"
    unfolding grid_from_res_def Let_def
    using fls ov q p X by (simp add: fl_one fl_zero fl_minus)
  have crs: "crs_from_user_input sim_lib (CrsEPSG 32645) = Inr (EPSG 32645)"
    by (simp add: sim_lib_def)
  have dt: "(None :: dtype option) \<noteq> None \<or> dtypes dem \<noteq> []"
    by (simp add: dem_fields)
  note th = reproject_with_resolution [where env = sim_lib and ci = "CrsEPSG 32645"
      and c = "EPSG 32645" and dtype' = None and self = dem and res = "ResTuple X 1"
      and b = "\<lparr>bb_left = 0, bb_bottom = 0, bb_right = R, bb_top = 1\<rparr>"
      and rs = Nearest and nodata' = None, OF crs dt, unfolded Let_def]
  show "map_sum id width
           (reproject sim_lib dem None (Some (CrsEPSG 32645)) None
              (Some \<lparr>bb_left = 0, bb_bottom = 0, bb_right = R, bb_top = 1\<rparr>)
              (Some (ResTuple X 1)) None None Nearest) = Inr 549"
    using th fls ov q p X
    by (simp add: fl_one fl_zero fl_minus
        sim_lib_def from_array_def sim_create_def sim_dataset_def raster_init_def fresh_def
        load_def dem_fields shape0_def shape1_def shape2_def memfile_open_def read_attrs_default
        case_replicate Let_def)
qed

text \<open>
  C5 as stated fails: for these bounds and this resolution the width is 549, while the
  ceiling of \<open>(right - left) / xres\<close> is 550, and the right bound is moved inward, from
  384.3 to 384.29999999999995.
\<close>

theorem reproject_grid_rounding_counterexample:
  "grid_from_res None
     (Some \<lparr>bb_left = 0, bb_bottom = 0, bb_right = 6760677096869069 / 2 ^ 44, bb_top = 1\<rparr>)
     (Some (ResTuple (3152519739159347 / 2 ^ 52) 1)) =
     Inr (Some (549, 1),
          NpBounds \<lparr>bb_left = 0, bb_bottom = 0, bb_right = 6760677096869068 / 2 ^ 44,
                    bb_top = 1\<rparr>, None)
   \<and> map_sum id width
        (reproject sim_lib dem None (Some (CrsEPSG 32645)) None
           (Some \<lparr>bb_left = 0, bb_bottom = 0, bb_right = 6760677096869069 / 2 ^ 44, bb_top = 1\<rparr>)
           (Some (ResTuple (3152519739159347 / 2 ^ 52) 1)) None None Nearest) = Inr 549
   \<and> \<lceil>(6760677096869069 / 2 ^ 44 - 0) / (3152519739159347 / 2 ^ 52) :: real\<rceil> = 550
   \<and> (6760677096869068 / 2 ^ 44 :: real) < 6760677096869069 / 2 ^ 44"
proof (intro conjI)
  have X: "(3152519739159347 / 2 ^ 52 :: real) \<noteq> 0" by simp
  show "grid_from_res None
     (Some \<lparr>bb_left = 0, bb_bottom = 0, bb_right = 6760677096869069 / 2 ^ 44, bb_top = 1\<rparr>)
     (Some (ResTuple (3152519739159347 / 2 ^ 52) 1)) =
     Inr (Some (549, 1),
          NpBounds \<lparr>bb_left = 0, bb_bottom = 0, bb_right = 6760677096869068 / 2 ^ 44,
                    bb_top = 1\<rparr>, None)"
    by (rule grid_with_rounding(1) [OF right_bound_is_double quotient_rounds_to_549
          product_rounds_down adjusted_bound_is_double X])
  show "map_sum id width
        (reproject sim_lib dem None (Some (CrsEPSG 32645)) None
           (Some \<lparr>bb_left = 0, bb_bottom = 0, bb_right = 6760677096869069 / 2 ^ 44, bb_top = 1\<rparr>)
           (Some (ResTuple (3152519739159347 / 2 ^ 52) 1)) None None Nearest) = Inr 549"
    by (rule grid_with_rounding(2) [OF right_bound_is_double quotient_rounds_to_549
          product_rounds_down adjusted_bound_is_double X])
  show "\<lceil>(6760677096869069 / 2 ^ 44 - 0) / (3152519739159347 / 2 ^ 52) :: real\<rceil> = 550"
    by (rule ceiling_unique) simp_all
  show "(6760677096869068 / 2 ^ 44 :: real) < 6760677096869069 / 2 ^ 44" by simp
qed


subsection \<open>Further facts\<close>

text \<open>
  The broadcast of a nodata value on the three-band example file completes: the new nodata
  value is recorded and the masked entries of every band are overwritten with it.
\<close>

lemma rgb_set_ndv_completes:
  "map_sum id nodata (snd (set_ndv sim_lib rgb (NdvArgNum 255) True)) = Inr (Some 255)
   \<and> map_sum id (map_option arr_data \<circ> data) (snd (set_ndv sim_lib rgb (NdvArgNum 255) True)) =
       Inr (Some [[[1, 255], [3, 4]], [[5, 6], [255, 8]], [[9, 10], [11, 12]]])"
  by (simp add: set_ndv_def set_ndv_apply_def rgb_fields fill_band_def ndv_item_def assign_where_def
      update_def sim_fields sim_create_def sim_dataset_def ds_meta_def Let_def nodata_mask_def
      rgb_dataset_def ds_read_def shape0_def shape1_def shape2_def memfile_open_def read_attrs_default
      load_def upt_rec numeral_3_eq_3)

text \<open>
  Without a window the reducer is applied all the same, to the one entry read: the inner
  function tests the variable \<^verbatim>\<open>window\<close> after it has been rebound to the Window object.
\<close>

lemma value_at_coords_no_window_reduces:
  assumes "ds_index env (ds self) x y = Inr (row, col)" and "in_image (ds self) row col"
    and "nbands self = Some 1" and "ds_count (ds self) = 1"
  shows "value_at_coords env self x y False BandNone masked' None False boundless reducer_function =
     Inr (Single (FScalar (reducer_function [window_entry (ds self) (nodata self) masked' 0 (row, col)])), None)"
proof -
  have bl: "boundless \<or> in_image (ds self) row col" using assms(2) by simp
  show ?thesis
    unfolding value_at_coords_def
    by (simp add: assms Let_def window1_all_bands [OF bl assms(4)] format_value_def window1_entries)
qed


end
